theory Spec2Isabelle
  imports Complex_Main "HOL-Library.Sublist"
begin

section \<open>Values that cross the untyped boundaries\<close>

text \<open>
  Tool inputs arrive from the model as \<^verbatim>\<open>Record<string, unknown>\<close> and the handlers read
  them through unchecked \<^verbatim>\<open>as\<close> casts, so the run-time value of a field is any JSON
  value or \<^verbatim>\<open>undefined\<close>. Numbers are restricted to integers. An object is the list
  of its own properties, in order.
\<close>

datatype json =
    JUndefined
  | JNull
  | JBool bool
  | JNum int
  | JStr string
  | JArr "json list"
  | JObj "(string \<times> json) list"

text \<open>
  What a \<^verbatim>\<open>throw\<close> carries. \<open>Error\<close>, \<open>TypeError\<close> and \<open>ExitPromptError\<close> (the error with
  which an interactive prompt rejects when the user aborts it) are instances of the
  JavaScript class \<^verbatim>\<open>Error\<close> and carry a message; \<open>NonError\<close> is any other thrown value.
\<close>

datatype exn = Error string | TypeError string | ExitPromptError string | NonError

text \<open>\<^verbatim>\<open>error instanceof Error ? error.message : 'Unknown error'\<close>\<close>

fun errorMessage :: "exn \<Rightarrow> string" where
  "errorMessage (Error m) = m"
| "errorMessage (TypeError m) = m"
| "errorMessage (ExitPromptError m) = m"
| "errorMessage NonError = ''Unknown error''"

text \<open>JavaScript truthiness, \<^verbatim>\<open>a || b\<close> and \<^verbatim>\<open>a ?? b\<close>.\<close>

fun truthy :: "json \<Rightarrow> bool" where
  "truthy JUndefined = False"
| "truthy JNull = False"
| "truthy (JBool b) = b"
| "truthy (JNum n) = (n \<noteq> 0)"
| "truthy (JStr s) = (s \<noteq> [])"
| "truthy (JArr xs) = True"
| "truthy (JObj fs) = True"

definition js_or :: "json \<Rightarrow> json \<Rightarrow> json" where
  "js_or a b = (if truthy a then a else b)"

definition js_nullish :: "json \<Rightarrow> json \<Rightarrow> json" where
  "js_nullish a b = (if a = JUndefined \<or> a = JNull then b else a)"

text \<open>Reading a property of an object that is known to be an object: \<^verbatim>\<open>input.k\<close>.\<close>

definition getProp :: "(string \<times> json) list \<Rightarrow> string \<Rightarrow> json" where
  "getProp fs k = (case map_of fs k of None \<Rightarrow> JUndefined | Some v \<Rightarrow> v)"

text \<open>
  Reading a property of an arbitrary value: \<^verbatim>\<open>undefined\<close> and \<^verbatim>\<open>null\<close> throw a
  TypeError, the other primitives and arrays have none of the properties read here.
\<close>

fun js_get :: "json \<Rightarrow> string \<Rightarrow> exn + json" where
  "js_get (JObj fs) k = Inr (getProp fs k)"
| "js_get JUndefined k = Inl (TypeError (''Cannot read properties of undefined (reading '' @ k @ '')''))"
| "js_get JNull k = Inl (TypeError (''Cannot read properties of null (reading '' @ k @ '')''))"
| "js_get v k = Inr JUndefined"

text \<open>Assignment \<^verbatim>\<open>o.k = v\<close>: an existing property keeps its place.\<close>

fun set_prop :: "(string \<times> json) list \<Rightarrow> string \<Rightarrow> json \<Rightarrow> (string \<times> json) list" where
  "set_prop [] k v = [(k, v)]"
| "set_prop ((k', v') # fs) k v = (if k' = k then (k, v) # fs else (k', v') # set_prop fs k v)"

text \<open>Decimal rendering of a number and the string coercion of template literals.\<close>

definition digit :: "nat \<Rightarrow> char" where
  "digit n = ''0123456789'' ! (n mod 10)"

fun showNat :: "nat \<Rightarrow> string" where
  "showNat n = (if n < 10 then [digit n] else showNat (n div 10) @ [digit (n mod 10)])"

definition showInt :: "int \<Rightarrow> string" where
  "showInt i = (if i < 0 then CHR ''-'' # showNat (nat (- i)) else showNat (nat i))"

fun join :: "string \<Rightarrow> string list \<Rightarrow> string" where
  "join sep [] = []"
| "join sep [x] = x"
| "join sep (x # y # ys) = x @ sep @ join sep (y # ys)"

fun js_String :: "json \<Rightarrow> string" where
  "js_String JUndefined = ''undefined''"
| "js_String JNull = ''null''"
| "js_String (JBool b) = (if b then ''true'' else ''false'')"
| "js_String (JNum n) = showInt n"
| "js_String (JStr s) = s"
| "js_String (JArr xs) =
     join '','' (map (\<lambda>x. if x = JUndefined \<or> x = JNull then [] else js_String x) xs)"
| "js_String (JObj fs) = ''[object Object]''"

text \<open>
  \<^verbatim>\<open>v.map(f)\<close> for a callback that may throw: only an array has \<^verbatim>\<open>map\<close>.
\<close>

fun mapE :: "('a \<Rightarrow> exn + 'b) \<Rightarrow> 'a list \<Rightarrow> exn + 'b list" where
  "mapE f [] = Inr []"
| "mapE f (x # xs) =
     (case f x of Inl e \<Rightarrow> Inl e
      | Inr y \<Rightarrow> (case mapE f xs of Inl e \<Rightarrow> Inl e | Inr ys \<Rightarrow> Inr (y # ys)))"

fun js_map :: "(json \<Rightarrow> exn + json) \<Rightarrow> json \<Rightarrow> exn + json" where
  "js_map f (JArr xs) = (case mapE f xs of Inl e \<Rightarrow> Inl e | Inr ys \<Rightarrow> Inr (JArr ys))"
| "js_map f JUndefined = Inl (TypeError ''Cannot read properties of undefined (reading map)'')"
| "js_map f JNull = Inl (TypeError ''Cannot read properties of null (reading map)'')"
| "js_map f v = Inl (TypeError ''map is not a function'')"

text \<open>Object spread \<^verbatim>\<open>{...a, ...b}\<close>: the own enumerable properties, later ones winning.\<close>

fun indexed :: "nat \<Rightarrow> json list \<Rightarrow> (string \<times> json) list" where
  "indexed i [] = []"
| "indexed i (x # xs) = (showNat i, x) # indexed (Suc i) xs"

fun spread :: "json \<Rightarrow> (string \<times> json) list" where
  "spread (JObj fs) = fs"
| "spread (JArr xs) = indexed 0 xs"
| "spread (JStr s) = indexed 0 (map (\<lambda>c. JStr [c]) s)"
| "spread v = []"

definition assign :: "(string \<times> json) list \<Rightarrow> (string \<times> json) list \<Rightarrow> (string \<times> json) list" where
  "assign a b = foldl (\<lambda>acc kv. set_prop acc (fst kv) (snd kv)) a b"

section \<open>Records of the document store (src/models)\<close>

datatype StoryStatus = Draft | Ready | InProgress | Done
datatype Priority = Low | Medium | High | Critical
datatype StoryType = UserStory | TechnicalStory | Bug | Spike

fun statusName :: "StoryStatus \<Rightarrow> string" where
  "statusName Draft = ''draft''"
| "statusName Ready = ''ready''"
| "statusName InProgress = ''in-progress''"
| "statusName Done = ''done''"

fun priorityName :: "Priority \<Rightarrow> string" where
  "priorityName Low = ''low''"
| "priorityName Medium = ''medium''"
| "priorityName High = ''high''"
| "priorityName Critical = ''critical''"

fun typeName :: "StoryType \<Rightarrow> string" where
  "typeName UserStory = ''user-story''"
| "typeName TechnicalStory = ''technical-story''"
| "typeName Bug = ''bug''"
| "typeName Spike = ''spike''"

record AcceptanceCriterion =
  ac_text :: string
  completed :: bool

text \<open>
  \<open>Story\<close> is the output type of \<^verbatim>\<open>StorySchema.parse\<close>: every story that the store hands
  out has gone through it, so its fields are typed. The field \<^verbatim>\<open>id\<close> is \<open>sid\<close> and
  \<^verbatim>\<open>type\<close> is \<open>stype\<close> here.
\<close>

record Story =
  sid :: string
  title :: string
  stype :: StoryType
  status :: StoryStatus
  priority :: Priority
  feature :: "string option"
  persona :: "string option"
  asA :: "string option"
  iWant :: "string option"
  soThat :: "string option"
  acceptanceCriteria :: "AcceptanceCriterion list"
  openQuestions :: "string list"
  edgeCases :: "string list"
  dependencies :: "string list"
  relatedStories :: "string list"
  estimate :: "string option"
  tags :: "string list"
  createdAt :: string
  updatedAt :: string

record Feature =
  f_id :: string
  f_title :: string
  f_description :: "string option"
  f_status :: StoryStatus
  f_priority :: Priority
  f_successCriteria :: "string list"
  f_stories :: "string list"
  f_tags :: "string list"
  f_createdAt :: string
  f_updatedAt :: string

record Dimension =
  score :: int
  feedback :: string

record InvestAnalysis =
  independent :: Dimension
  negotiable :: Dimension
  valuable :: Dimension
  estimable :: Dimension
  small :: Dimension
  testable :: Dimension
  overallScore :: int
  suggestions :: "string list"

text \<open>The run-time object of a typed record; an absent optional field is no property.\<close>

definition optField :: "string \<Rightarrow> string option \<Rightarrow> (string \<times> json) list" where
  "optField k v = (case v of None \<Rightarrow> [] | Some s \<Rightarrow> [(k, JStr s)])"

definition strings :: "string list \<Rightarrow> json" where
  "strings xs = JArr (map JStr xs)"

definition storyObject :: "Story \<Rightarrow> (string \<times> json) list" where
  "storyObject s =
     [(''id'', JStr (sid s)), (''title'', JStr (title s)), (''type'', JStr (typeName (stype s))),
      (''status'', JStr (statusName (status s))), (''priority'', JStr (priorityName (priority s)))]
     @ optField ''feature'' (feature s) @ optField ''persona'' (persona s)
     @ optField ''asA'' (asA s) @ optField ''iWant'' (iWant s) @ optField ''soThat'' (soThat s)
     @ [(''acceptanceCriteria'',
          JArr (map (\<lambda>ac. JObj [(''text'', JStr (ac_text ac)), (''completed'', JBool (completed ac))])
                 (acceptanceCriteria s))),
        (''openQuestions'', strings (openQuestions s)), (''edgeCases'', strings (edgeCases s)),
        (''dependencies'', strings (dependencies s)), (''relatedStories'', strings (relatedStories s))]
     @ optField ''estimate'' (estimate s)
     @ [(''tags'', strings (tags s)), (''createdAt'', JStr (createdAt s)),
        (''updatedAt'', JStr (updatedAt s))]"

definition optJson :: "string option \<Rightarrow> json" where
  "optJson v = (case v of None \<Rightarrow> JUndefined | Some s \<Rightarrow> JStr s)"

definition dimensionObject :: "Dimension \<Rightarrow> json" where
  "dimensionObject d = JObj [(''score'', JNum (score d)), (''feedback'', JStr (feedback d))]"

definition analysisObject :: "InvestAnalysis \<Rightarrow> json" where
  "analysisObject a =
     JObj [(''independent'', dimensionObject (independent a)),
           (''negotiable'', dimensionObject (negotiable a)),
           (''valuable'', dimensionObject (valuable a)),
           (''estimable'', dimensionObject (estimable a)),
           (''small'', dimensionObject (small a)),
           (''testable'', dimensionObject (testable a)),
           (''overallScore'', JNum (overallScore a)),
           (''suggestions'', strings (suggestions a))]"

section \<open>Effects\<close>

text \<open>
  An asynchronous function that may throw is a function of the outside world \<open>'w\<close> (files,
  terminal, clock, network) to a result and the world after it; \<open>Inl\<close> is a throw or a
  rejected promise. Effects done before a throw stay done.
\<close>

type_synonym ('a, 'w) io = "'w \<Rightarrow> (exn + 'a) \<times> 'w"

definition return_io :: "'a \<Rightarrow> ('a, 'w) io" where
  "return_io x w = (Inr x, w)"

definition throw_io :: "exn \<Rightarrow> ('a, 'w) io" where
  "throw_io e w = (Inl e, w)"

definition bind_io :: "('a, 'w) io \<Rightarrow> ('a \<Rightarrow> ('b, 'w) io) \<Rightarrow> ('b, 'w) io" where
  "bind_io m f w = (case m w of (Inl e, w') \<Rightarrow> (Inl e, w') | (Inr x, w') \<Rightarrow> f x w')"

text \<open>\<^verbatim>\<open>try { m } catch (error) { h(error) }\<close>\<close>

definition catch_io :: "('a, 'w) io \<Rightarrow> (exn \<Rightarrow> ('a, 'w) io) \<Rightarrow> ('a, 'w) io" where
  "catch_io m h w = (case m w of (Inl e, w') \<Rightarrow> h e w' | (Inr x, w') \<Rightarrow> (Inr x, w'))"

text \<open>A synchronous computation that may throw, run inside an asynchronous one.\<close>

definition lift_io :: "exn + 'a \<Rightarrow> ('a, 'w) io" where
  "lift_io r w = (r, w)"

fun forEach_io :: "('a \<Rightarrow> (unit, 'w) io) \<Rightarrow> 'a list \<Rightarrow> (unit, 'w) io" where
  "forEach_io f [] = return_io ()"
| "forEach_io f (x # xs) = bind_io (f x) (\<lambda>_. forEach_io f xs)"

definition bindE :: "exn + 'a \<Rightarrow> ('a \<Rightarrow> exn + 'b) \<Rightarrow> exn + 'b" where
  "bindE r f = (case r of Inl e \<Rightarrow> Inl e | Inr x \<Rightarrow> f x)"

section \<open>Tool results, content blocks, messages\<close>

text \<open>\<^verbatim>\<open>interface ToolResult\<close>; an optional field that is not set is \<open>None\<close>.\<close>

record ToolResult =
  success :: bool
  data :: "json option"
  error :: "string option"
  requiresUserInput :: "bool option"
  userInput :: "json option"

text \<open>
  The content blocks of the SDK: text, tool use (invocation id, tool name, input), tool
  result (the invocation id it answers and its content) and any other block type, kept by
  its type tag. The content of a tool result is \<^verbatim>\<open>JSON.stringify(result)\<close>; the block
  here holds the result that is serialised.
\<close>

datatype block =
    TextBlock string
  | ToolUseBlock string string "(string \<times> json) list"
  | ToolResultBlock string ToolResult
  | OtherBlock string

datatype MessageRole = user | assistant

datatype content = Plain string | Blocks "block list"

record ConversationMessage =
  role :: MessageRole
  content :: content

datatype stop_reason = end_turn | max_tokens | stop_sequence | tool_use | pause_turn | refusal

text \<open>\<^verbatim>\<open>Anthropic.Messages.Message\<close>, the fields read here; a null stop reason is \<open>None\<close>.\<close>

record Response =
  r_content :: "block list"
  r_stop_reason :: "stop_reason option"

section \<open>The outside world\<close>

text \<open>
  A file tree as the synchronous calls of node's \<^verbatim>\<open>fs\<close> module see it: a path is a
  directory with its entries, a file with its text, or absent.
\<close>

datatype node = Dir "string list" | File string

text \<open>
  Everything outside the repository is a capability of the environment:
  the project path given to the constructors; the file tree of the world; the parsers
  \<^verbatim>\<open>markdownToStory\<close> and \<^verbatim>\<open>markdownToFeature\<close>, which rest on gray-matter and zod and
  either throw or yield a typed record; the writing half of \<^verbatim>\<open>StorageManager.createStory\<close>
  and \<^verbatim>\<open>createFeature\<close> (directory creation, serialisation, \<^verbatim>\<open>writeFileSync\<close>); the
  clock; the four interactive prompts of the UI module, which reject when the user aborts
  them; and the two halves of \<^verbatim>\<open>sendMessage\<close>: obtaining the client, which throws without
  a credential, and \<^verbatim>\<open>messages.create\<close>, given the system prompt and the messages (the
  tool schema is a constant). Terminal output (spinner, \<^verbatim>\<open>console.log\<close>, the display
  helpers) changes nothing that is read back and is left out.

  The last capability is \<^verbatim>\<open>String.prototype.toLowerCase\<close> of the engine. It folds every
  cased letter of Unicode, some of them to more than one character and some depending on
  their neighbours, so it is not a map over the characters; nothing is assumed about it.
  A string is the UTF-8 encoding of its text: for well-formed text one string occurs in
  another as a run of code units exactly when its encoding occurs as a run of bytes.
\<close>

record 'w env =
  projectPath :: string
  fs :: "'w \<Rightarrow> string \<Rightarrow> node option"
  markdownToStory :: "string \<Rightarrow> exn + Story"
  markdownToFeature :: "string \<Rightarrow> exn + Feature"
  fs_writeStory :: "json \<Rightarrow> (string \<times> json) list \<Rightarrow> (unit, 'w) io"
  fs_writeFeature :: "(string \<times> json) list \<Rightarrow> (unit, 'w) io"
  now :: "'w \<Rightarrow> string \<times> 'w"
  askSelect :: "json \<Rightarrow> json list \<Rightarrow> (json, 'w) io"
  askMultiSelect :: "json \<Rightarrow> json list \<Rightarrow> (json list, 'w) io"
  askQuestion :: "string \<Rightarrow> (string, 'w) io"
  askConfirm :: "string \<Rightarrow> bool \<Rightarrow> (bool, 'w) io"
  getAnthropicClient :: "(unit, 'w) io"
  messages_create :: "string \<Rightarrow> ConversationMessage list \<Rightarrow> (Response, 'w) io"
  toLowerCase :: "string \<Rightarrow> string"

text \<open>\<^verbatim>\<open>new Date().toISOString()\<close>\<close>

definition clock :: "'w env \<Rightarrow> (string, 'w) io" where
  "clock env w = (case now env w of (t, w') \<Rightarrow> (Inr t, w'))"

section \<open>StorageManager (src/storage)\<close>

definition existsSync :: "(string \<Rightarrow> node option) \<Rightarrow> string \<Rightarrow> bool" where
  "existsSync t p = (case t p of None \<Rightarrow> False | Some n \<Rightarrow> True)"

definition readdirSync :: "(string \<Rightarrow> node option) \<Rightarrow> string \<Rightarrow> exn + string list" where
  "readdirSync t p =
     (case t p of
        Some (Dir names) \<Rightarrow> Inr names
      | Some (File c) \<Rightarrow> Inl (Error ''ENOTDIR: not a directory, scandir'')
      | None \<Rightarrow> Inl (Error ''ENOENT: no such file or directory, scandir''))"

definition isDirectory :: "(string \<Rightarrow> node option) \<Rightarrow> string \<Rightarrow> exn + bool" where
  "isDirectory t p =
     (case t p of
        Some (Dir names) \<Rightarrow> Inr True
      | Some (File c) \<Rightarrow> Inr False
      | None \<Rightarrow> Inl (Error ''ENOENT: no such file or directory, stat''))"

definition readFileSync :: "(string \<Rightarrow> node option) \<Rightarrow> string \<Rightarrow> exn + string" where
  "readFileSync t p =
     (case t p of
        Some (File c) \<Rightarrow> Inr c
      | Some (Dir names) \<Rightarrow> Inl (Error ''EISDIR: illegal operation on a directory, read'')
      | None \<Rightarrow> Inl (Error ''ENOENT: no such file or directory, open''))"

text \<open>
  \<^verbatim>\<open>path.join(base, seg)\<close> with \<open>seg\<close> of unchecked type: a segment that is not a string
  throws; an empty one adds nothing. Segments are taken as plain names: the
  normalisation of \<^verbatim>\<open>.\<close>, \<^verbatim>\<open>..\<close> and separators inside a segment is not modelled.
\<close>

definition path_join :: "string \<Rightarrow> json \<Rightarrow> exn + string" where
  "path_join base seg =
     (case seg of
        JStr s \<Rightarrow> Inr (if s = [] then base else base @ ''/'' @ s)
      | _ \<Rightarrow> Inl (TypeError ''The path argument must be of type string''))"

definition getFeaturesDir :: "'w env \<Rightarrow> string" where
  "getFeaturesDir env = projectPath env @ ''/features''"

definition getFeatureDir :: "'w env \<Rightarrow> json \<Rightarrow> exn + string" where
  "getFeatureDir env featureId = path_join (getFeaturesDir env) featureId"

definition getStoriesDir :: "'w env \<Rightarrow> json \<Rightarrow> exn + string" where
  "getStoriesDir env featureId = bindE (getFeatureDir env featureId) (\<lambda>d. Inr (d @ ''/stories''))"

definition getStoryPath :: "'w env \<Rightarrow> json \<Rightarrow> json \<Rightarrow> exn + string" where
  "getStoryPath env featureId storyId =
     bindE (getStoriesDir env featureId) (\<lambda>d. Inr (d @ ''/'' @ js_String storyId @ ''.md''))"

definition getFeaturePath :: "'w env \<Rightarrow> json \<Rightarrow> exn + string" where
  "getFeaturePath env featureId = bindE (getFeatureDir env featureId) (\<lambda>d. Inr (d @ ''/feature.md''))"

text \<open>
  \<^verbatim>\<open>createStory\<close>: the feature defaults to the backlog; the rest is file writing.
  \<^verbatim>\<open>updateStory\<close> stamps the record and creates it again.
\<close>

definition storage_createStory :: "'w env \<Rightarrow> (string \<times> json) list \<Rightarrow> (unit, 'w) io" where
  "storage_createStory env story =
     (let featureId = js_or (getProp story ''feature'') (JStr ''backlog'')
      in fs_writeStory env featureId story)"

definition storage_updateStory :: "'w env \<Rightarrow> (string \<times> json) list \<Rightarrow> (unit, 'w) io" where
  "storage_updateStory env story =
     bind_io (clock env) (\<lambda>t. storage_createStory env (set_prop story ''updatedAt'' (JStr t)))"

definition storage_getStory :: "'w env \<Rightarrow> json \<Rightarrow> json \<Rightarrow> (Story option, 'w) io" where
  "storage_getStory env featureId storyId w =
     (case getStoryPath env featureId storyId of
        Inl e \<Rightarrow> (Inl e, w)
      | Inr storyPath \<Rightarrow>
          if \<not> existsSync (fs env w) storyPath then (Inr None, w)
          else (case readFileSync (fs env w) storyPath of
                  Inl e \<Rightarrow> (Inl e, w)
                | Inr text \<Rightarrow>
                    (case markdownToStory env text of
                       Inl e \<Rightarrow> (Inl e, w)
                     | Inr story \<Rightarrow> (Inr (Some story), w))))"

definition endsWith :: "string \<Rightarrow> string \<Rightarrow> bool" where
  "endsWith s suf = (length suf \<le> length s \<and> drop (length s - length suf) s = suf)"

fun filterE :: "('a \<Rightarrow> exn + bool) \<Rightarrow> 'a list \<Rightarrow> exn + 'a list" where
  "filterE p [] = Inr []"
| "filterE p (x # xs) =
     (case p x of
        Inl e \<Rightarrow> Inl e
      | Inr b \<Rightarrow> (case filterE p xs of Inl e \<Rightarrow> Inl e | Inr ys \<Rightarrow> Inr (if b then x # ys else ys)))"

text \<open>The entries of a directory that are directories themselves.\<close>

definition directories :: "(string \<Rightarrow> node option) \<Rightarrow> string \<Rightarrow> exn + string list" where
  "directories t dir =
     bindE (readdirSync t dir) (filterE (\<lambda>f. isDirectory t (dir @ ''/'' @ f)))"

text \<open>The inner loop of \<^verbatim>\<open>listStories\<close>: a file that does not parse is skipped.\<close>

fun readStories ::
  "'w env \<Rightarrow> (string \<Rightarrow> node option) \<Rightarrow> string \<Rightarrow> string list \<Rightarrow> Story list \<Rightarrow> exn + Story list" where
  "readStories env t storiesDir [] stories = Inr stories"
| "readStories env t storiesDir (storyFile # rest) stories =
     (case readFileSync t (storiesDir @ ''/'' @ storyFile) of
        Inl e \<Rightarrow> Inl e
      | Inr text \<Rightarrow>
          (case markdownToStory env text of
             Inl e \<Rightarrow> readStories env t storiesDir rest stories
           | Inr story \<Rightarrow> readStories env t storiesDir rest (stories @ [story])))"

text \<open>The outer loop: a feature directory without a stories directory is skipped.\<close>

fun readFeatureDirs ::
  "'w env \<Rightarrow> (string \<Rightarrow> node option) \<Rightarrow> json list \<Rightarrow> Story list \<Rightarrow> exn + Story list" where
  "readFeatureDirs env t [] stories = Inr stories"
| "readFeatureDirs env t (fDir # rest) stories =
     (case getStoriesDir env fDir of
        Inl e \<Rightarrow> Inl e
      | Inr storiesDir \<Rightarrow>
          if \<not> existsSync t storiesDir then readFeatureDirs env t rest stories
          else (case readdirSync t storiesDir of
                  Inl e \<Rightarrow> Inl e
                | Inr names \<Rightarrow>
                    (case readStories env t storiesDir (filter (\<lambda>f. endsWith f ''.md'') names) stories of
                       Inl e \<Rightarrow> Inl e
                     | Inr stories' \<Rightarrow> readFeatureDirs env t rest stories')))"

definition storage_listStories :: "'w env \<Rightarrow> json \<Rightarrow> (Story list, 'w) io" where
  "storage_listStories env featureId w =
     (let t = fs env w; featuresDir = getFeaturesDir env
      in if \<not> existsSync t featuresDir then (Inr [], w)
         else (case (if truthy featureId then Inr [featureId]
                     else bindE (directories t featuresDir) (\<lambda>ds. Inr (map JStr ds))) of
                 Inl e \<Rightarrow> (Inl e, w)
               | Inr featureDirs \<Rightarrow> (readFeatureDirs env t featureDirs [], w)))"

definition storage_createFeature :: "'w env \<Rightarrow> (string \<times> json) list \<Rightarrow> (unit, 'w) io" where
  "storage_createFeature env feat = fs_writeFeature env feat"

fun readFeatures ::
  "'w env \<Rightarrow> (string \<Rightarrow> node option) \<Rightarrow> string list \<Rightarrow> Feature list \<Rightarrow> exn + Feature list" where
  "readFeatures env t [] features = Inr features"
| "readFeatures env t (fDir # rest) features =
     (case getFeaturePath env (JStr fDir) of
        Inl e \<Rightarrow> Inl e
      | Inr featurePath \<Rightarrow>
          if \<not> existsSync t featurePath then readFeatures env t rest features
          else (case readFileSync t featurePath of
                  Inl e \<Rightarrow> Inl e
                | Inr text \<Rightarrow>
                    (case markdownToFeature env text of
                       Inl e \<Rightarrow> readFeatures env t rest features
                     | Inr feat \<Rightarrow> readFeatures env t rest (features @ [feat]))))"

definition storage_listFeatures :: "'w env \<Rightarrow> (Feature list, 'w) io" where
  "storage_listFeatures env w =
     (let t = fs env w; featuresDir = getFeaturesDir env
      in if \<not> existsSync t featuresDir then (Inr [], w)
         else (case directories t featuresDir of
                 Inl e \<Rightarrow> (Inl e, w)
               | Inr featureDirs \<Rightarrow> (readFeatures env t featureDirs [], w)))"

text \<open>
  Search: \<^verbatim>\<open>String.prototype.includes\<close> by the positions of the text, the array of
  searched fields, \<^verbatim>\<open>filter(Boolean)\<close>, which drops the absent and the empty fields, the
  join by one space and the lower-casing of text and query.
\<close>

definition startsWith :: "string \<Rightarrow> string \<Rightarrow> bool" where
  "startsWith s q = (take (length q) s = q)"

fun js_includes :: "string \<Rightarrow> string \<Rightarrow> bool" where
  "js_includes [] q = (q = [])"
| "js_includes (c # cs) q = (startsWith (c # cs) q \<or> js_includes cs q)"

fun filterBoolean :: "string option list \<Rightarrow> string list" where
  "filterBoolean [] = []"
| "filterBoolean (None # vs) = filterBoolean vs"
| "filterBoolean (Some s # vs) = (if s = [] then filterBoolean vs else s # filterBoolean vs)"

text \<open>The array that is filtered and joined: the fields of a story that are searched.\<close>

definition searchFields :: "Story \<Rightarrow> string option list" where
  "searchFields story =
     [Some (title story), asA story, iWant story, soThat story]
     @ map (\<lambda>ac. Some (ac_text ac)) (acceptanceCriteria story)
     @ map Some (openQuestions story)
     @ map Some (edgeCases story)
     @ map Some (tags story)"

definition searchText :: "'w env \<Rightarrow> Story \<Rightarrow> string" where
  "searchText env story = toLowerCase env (join '' '' (filterBoolean (searchFields story)))"

definition storage_searchStories :: "'w env \<Rightarrow> json \<Rightarrow> (Story list, 'w) io" where
  "storage_searchStories env query =
     bind_io (storage_listStories env JUndefined) (\<lambda>allStories.
       case query of
         JStr q \<Rightarrow>
           (let lowerQuery = toLowerCase env q
            in return_io (filter (\<lambda>story. js_includes (searchText env story) lowerQuery) allStories))
       | _ \<Rightarrow> throw_io (TypeError ''query.toLowerCase is not a function''))"


section \<open>ToolExecutor (src/ai/tools)\<close>

definition ok :: "json \<Rightarrow> ToolResult" where
  "ok d = \<lparr>success = True, data = Some d, error = None, requiresUserInput = None, userInput = None\<rparr>"

definition failure :: "string \<Rightarrow> ToolResult" where
  "failure m = \<lparr>success = False, data = None, error = Some m, requiresUserInput = None, userInput = None\<rparr>"

text \<open>
  Every handler is \<^verbatim>\<open>try { ... } catch (error) { return { success: false, error: ... } }\<close>.
  The try block of handler \<open>h\<close> is \<open>h_try\<close>, and \<open>h\<close> wraps it.
\<close>

definition criteria :: "json \<Rightarrow> exn + json" where
  "criteria v = js_map (\<lambda>text. Inr (JObj [(''text'', text), (''completed'', JBool False)])) v"

definition createStory_try :: "'w env \<Rightarrow> (string \<times> json) list \<Rightarrow> (ToolResult, 'w) io" where
  \<open>createStory_try env input =
     bind_io (lift_io (criteria (js_or (getProp input ''acceptanceCriteria'') (JArr [])))) (\<lambda>acs.
     bind_io (clock env) (\<lambda>created.
     bind_io (clock env) (\<lambda>updated.
       let story =
         [(''id'', getProp input ''id''),
          (''title'', getProp input ''title''),
          (''type'', JStr ''user-story''),
          (''status'', JStr ''draft''),
          (''priority'', js_or (getProp input ''priority'') (JStr ''medium'')),
          (''feature'', getProp input ''feature''),
          (''asA'', getProp input ''asA''),
          (''iWant'', getProp input ''iWant''),
          (''soThat'', getProp input ''soThat''),
          (''acceptanceCriteria'', acs),
          (''openQuestions'', js_or (getProp input ''openQuestions'') (JArr [])),
          (''edgeCases'', js_or (getProp input ''edgeCases'') (JArr [])),
          (''dependencies'', JArr []),
          (''relatedStories'', JArr []),
          (''tags'', JArr []),
          (''createdAt'', JStr created),
          (''updatedAt'', JStr updated)]
       in bind_io (storage_createStory env story) (\<lambda>u.
          return_io (ok (JObj
            [(''message'', JStr (''Story "'' @ js_String (getProp story ''title'') @ ''" created successfully'')),
             (''storyId'', getProp story ''id''),
             (''feature'', js_or (getProp story ''feature'') (JStr ''backlog''))]))))))\<close>

definition createStory :: "'w env \<Rightarrow> (string \<times> json) list \<Rightarrow> (ToolResult, 'w) io" where
  "createStory env input =
     catch_io (createStory_try env input)
       (\<lambda>e. return_io (failure (''Failed to create story: '' @ errorMessage e)))"

definition updateStory_try :: "'w env \<Rightarrow> (string \<times> json) list \<Rightarrow> (ToolResult, 'w) io" where
  \<open>updateStory_try env input =
     (let storyId = getProp input ''id'';
          featureId = js_or (getProp input ''feature'') (JStr ''backlog'');
          updates = getProp input ''updates''
      in bind_io (storage_getStory env featureId storyId) (\<lambda>existingStory.
           case existingStory of
             None \<Rightarrow>
               return_io (failure (''Story "'' @ js_String storyId @ ''" not found in feature "''
                                     @ js_String featureId @ ''"''))
           | Some existing \<Rightarrow>
               bind_io (clock env) (\<lambda>t.
                 let updatedStory =
                       set_prop (assign (storyObject existing) (spread updates)) ''updatedAt'' (JStr t)
                 in bind_io (lift_io (js_get updates ''acceptanceCriteria'')) (\<lambda>ac.
                    bind_io (if truthy ac
                             then lift_io (bindE (criteria ac)
                                    (\<lambda>v. Inr (set_prop updatedStory ''acceptanceCriteria'' v)))
                             else return_io updatedStory) (\<lambda>updatedStory.
                    bind_io (storage_updateStory env updatedStory) (\<lambda>u.
                    return_io (ok (JObj
                      [(''message'', JStr (''Story "'' @ js_String storyId @ ''" updated successfully''))]))))))))\<close>

definition updateStory :: "'w env \<Rightarrow> (string \<times> json) list \<Rightarrow> (ToolResult, 'w) io" where
  "updateStory env input =
     catch_io (updateStory_try env input)
       (\<lambda>e. return_io (failure (''Failed to update story: '' @ errorMessage e)))"

definition listStories_try :: "'w env \<Rightarrow> (string \<times> json) list \<Rightarrow> (ToolResult, 'w) io" where
  "listStories_try env input =
     (let featureId = getProp input ''feature'';
          statusFilter = getProp input ''status''
      in bind_io (storage_listStories env featureId) (\<lambda>listed.
           let stories = (if truthy statusFilter
                          then filter (\<lambda>s. JStr (statusName (status s)) = statusFilter) listed
                          else listed)
           in return_io (ok (JObj
                [(''count'', JNum (int (length stories))),
                 (''stories'', JArr (map (\<lambda>s. JObj
                    [(''id'', JStr (sid s)),
                     (''title'', JStr (title s)),
                     (''status'', JStr (statusName (status s))),
                     (''priority'', JStr (priorityName (priority s))),
                     (''feature'', optJson (feature s))]) stories))]))))"

definition listStories :: "'w env \<Rightarrow> (string \<times> json) list \<Rightarrow> (ToolResult, 'w) io" where
  "listStories env input =
     catch_io (listStories_try env input)
       (\<lambda>e. return_io (failure (''Failed to list stories: '' @ errorMessage e)))"

definition createFeature_try :: "'w env \<Rightarrow> (string \<times> json) list \<Rightarrow> (ToolResult, 'w) io" where
  \<open>createFeature_try env input =
     bind_io (clock env) (\<lambda>created.
     bind_io (clock env) (\<lambda>updated.
       let feat =
         [(''id'', getProp input ''id''),
          (''title'', getProp input ''title''),
          (''description'', getProp input ''description''),
          (''status'', JStr ''draft''),
          (''priority'', js_or (getProp input ''priority'') (JStr ''medium'')),
          (''successCriteria'', js_or (getProp input ''successCriteria'') (JArr [])),
          (''stories'', JArr []),
          (''tags'', JArr []),
          (''createdAt'', JStr created),
          (''updatedAt'', JStr updated)]
       in bind_io (storage_createFeature env feat) (\<lambda>u.
          return_io (ok (JObj
            [(''message'', JStr (''Feature "'' @ js_String (getProp feat ''title'') @ ''" created successfully'')),
             (''featureId'', getProp feat ''id'')])))))\<close>

definition createFeature :: "'w env \<Rightarrow> (string \<times> json) list \<Rightarrow> (ToolResult, 'w) io" where
  "createFeature env input =
     catch_io (createFeature_try env input)
       (\<lambda>e. return_io (failure (''Failed to create feature: '' @ errorMessage e)))"

definition listFeatures_try :: "'w env \<Rightarrow> (ToolResult, 'w) io" where
  "listFeatures_try env =
     bind_io (storage_listFeatures env) (\<lambda>features.
     bind_io (forEach_io
                (\<lambda>feat. bind_io (storage_listStories env (JStr (f_id feat))) (\<lambda>stories. return_io ()))
                features) (\<lambda>u.
     return_io (ok (JObj
       [(''count'', JNum (int (length features))),
        (''features'', JArr (map (\<lambda>f. JObj
           [(''id'', JStr (f_id f)),
            (''title'', JStr (f_title f)),
            (''status'', JStr (statusName (f_status f)))]) features))]))))"

definition listFeatures :: "'w env \<Rightarrow> (ToolResult, 'w) io" where
  "listFeatures env =
     catch_io (listFeatures_try env)
       (\<lambda>e. return_io (failure (''Failed to list features: '' @ errorMessage e)))"

definition searchStories_try :: "'w env \<Rightarrow> (string \<times> json) list \<Rightarrow> (ToolResult, 'w) io" where
  "searchStories_try env input =
     (let query = getProp input ''query''
      in bind_io (storage_searchStories env query) (\<lambda>stories.
           return_io (ok (JObj
             [(''query'', query),
              (''count'', JNum (int (length stories))),
              (''stories'', JArr (map (\<lambda>s. JObj
                 [(''id'', JStr (sid s)),
                  (''title'', JStr (title s)),
                  (''status'', JStr (statusName (status s))),
                  (''feature'', optJson (feature s))]) stories))]))))"

definition searchStories :: "'w env \<Rightarrow> (string \<times> json) list \<Rightarrow> (ToolResult, 'w) io" where
  "searchStories env input =
     catch_io (searchStories_try env input)
       (\<lambda>e. return_io (failure (''Failed to search stories: '' @ errorMessage e)))"

text \<open>\<^verbatim>\<open>options.map((opt) => ({ label: opt.label, value: opt.value, description: opt.description }))\<close>\<close>

definition questionOption :: "json \<Rightarrow> exn + json" where
  "questionOption opt =
     bindE (js_get opt ''label'') (\<lambda>l.
     bindE (js_get opt ''value'') (\<lambda>v.
     bindE (js_get opt ''description'') (\<lambda>d.
       Inr (JObj [(''label'', l), (''value'', v), (''description'', d)]))))"

fun elements :: "json \<Rightarrow> json list" where
  "elements (JArr xs) = xs"
| "elements v = []"

definition customOption :: json where
  "customOption =
     JObj [(''label'', JStr ''Other (custom answer)''),
           (''value'', JStr ''__custom__''),
           (''description'', JStr ''Enter your own answer'')]"

text \<open>\<^verbatim>\<open>answer === '__custom__' || (Array.isArray(answer) && answer.includes('__custom__'))\<close>\<close>

fun isCustom :: "json \<Rightarrow> bool" where
  "isCustom (JStr s) = (s = ''__custom__'')"
| "isCustom (JArr xs) = List.member xs (JStr ''__custom__'')"
| "isCustom v = False"

fun replaceCustom :: "json \<Rightarrow> string \<Rightarrow> json" where
  "replaceCustom (JArr xs) customAnswer =
     JArr (filter (\<lambda>a. a \<noteq> JStr ''__custom__'') xs @ [JStr customAnswer])"
| "replaceCustom v customAnswer = JStr customAnswer"

text \<open>
  The options handed to the prompt: the mapped options of the input and, unless
  \<^verbatim>\<open>allowCustom\<close> is falsy, the option for a custom answer. Both flags default by \<^verbatim>\<open>??\<close>.
\<close>

definition questionOptionsOf :: "(string \<times> json) list \<Rightarrow> exn + json list" where
  "questionOptionsOf input =
     (let options = getProp input ''options'';
          allowCustom = js_nullish (getProp input ''allowCustom'') (JBool True)
      in bindE (js_map questionOption options) (\<lambda>mapped.
           Inr (elements mapped @ (if truthy allowCustom then [customOption] else []))))"

definition multiSelectOf :: "(string \<times> json) list \<Rightarrow> bool" where
  "multiSelectOf input = truthy (js_nullish (getProp input ''multiSelect'') (JBool False))"

definition askUserQuestion_try :: "'w env \<Rightarrow> (string \<times> json) list \<Rightarrow> (ToolResult, 'w) io" where
  "askUserQuestion_try env input =
     (let question = getProp input ''question''
      in bind_io (lift_io (questionOptionsOf input)) (\<lambda>questionOptions.
         bind_io (if multiSelectOf input
                  then bind_io (askMultiSelect env question questionOptions)
                         (\<lambda>selected. return_io (JArr selected))
                  else askSelect env question questionOptions) (\<lambda>answer.
         bind_io (if isCustom answer
                  then bind_io (askQuestion env ''Please enter your answer:'')
                         (\<lambda>customAnswer. return_io (replaceCustom answer customAnswer))
                  else return_io answer) (\<lambda>answer.
         return_io \<lparr>success = True,
                    data = Some (JObj [(''question'', question), (''answer'', answer)]),
                    error = None,
                    requiresUserInput = Some True,
                    userInput = Some answer\<rparr>))))"

definition askUserQuestion :: "'w env \<Rightarrow> (string \<times> json) list \<Rightarrow> (ToolResult, 'w) io" where
  "askUserQuestion env input =
     catch_io (askUserQuestion_try env input)
       (\<lambda>e. return_io (failure (''Failed to get user input: '' @ errorMessage e)))"

text \<open>
  \<^verbatim>\<open>presentDraft\<close> first copies fields of the input into the draft and prints it, which
  neither throws nor is read back; the prompts follow.
\<close>

definition presentDraft_try :: "'w env \<Rightarrow> (string \<times> json) list \<Rightarrow> (ToolResult, 'w) io" where
  "presentDraft_try env input =
     bind_io (askConfirm env ''Do you approve this story draft?'' True) (\<lambda>approved.
       if approved
       then return_io (ok (JObj [(''approved'', JBool True),
                                 (''message'', JStr ''Draft approved by user'')]))
       else bind_io (askQuestion env ''What would you like to change?'') (\<lambda>fb.
              return_io (ok (JObj [(''approved'', JBool False), (''feedback'', JStr fb)]))))"

definition presentDraft :: "'w env \<Rightarrow> (string \<times> json) list \<Rightarrow> (ToolResult, 'w) io" where
  "presentDraft env input =
     catch_io (presentDraft_try env input)
       (\<lambda>e. return_io (failure (''Failed to present draft: '' @ errorMessage e)))"


text \<open>
  \<^verbatim>\<open>Math.round\<close> rounds to the nearest integer, a tie towards plus infinity. The scores are
  small integers, for which the quotient in doubles rounds as the exact quotient does.
\<close>

definition Math_round :: "real \<Rightarrow> int" where
  "Math_round x = \<lfloor>x + 1 / 2\<rfloor>"

text \<open>\<^verbatim>\<open>story.soThat ? 8 : 4\<close>: an absent or empty string is falsy.\<close>

definition truthyString :: "string option \<Rightarrow> bool" where
  "truthyString v = (case v of None \<Rightarrow> False | Some s \<Rightarrow> s \<noteq> [])"

text \<open>
  The INVEST analysis that \<^verbatim>\<open>analyzeStoryQuality\<close> computes from the loaded story, in the
  order of the source: the six dimensions, the overall score, the suggestions.
\<close>

definition investDimensions :: "Story \<Rightarrow> InvestAnalysis" where
  \<open>investDimensions story =
     \<lparr>independent =
        \<lparr>score = (if length (dependencies story) = 0 then 10 else 5),
         feedback = (if length (dependencies story) = 0 then ''Story has no dependencies''
                     else ''Story has '' @ showNat (length (dependencies story)) @ '' dependencies'')\<rparr>,
      negotiable =
        \<lparr>score = (if length (openQuestions story) > 0 then 8 else 6),
         feedback = (if length (openQuestions story) > 0
                     then ''Open questions indicate room for negotiation''
                     else ''Consider adding open questions for flexibility'')\<rparr>,
      valuable =
        \<lparr>score = (if truthyString (soThat story) then 8 else 4),
         feedback = (if truthyString (soThat story) then ''Value proposition is defined''
                     else ''Missing "so that" clause'')\<rparr>,
      estimable =
        \<lparr>score = (if length (acceptanceCriteria story) \<ge> 3 then 8 else 5),
         feedback = (if length (acceptanceCriteria story) \<ge> 3
                     then ''Sufficient acceptance criteria for estimation''
                     else ''Add more acceptance criteria for better estimation'')\<rparr>,
      small =
        \<lparr>score = (if length (acceptanceCriteria story) \<le> 7 then 8 else 4),
         feedback = (if length (acceptanceCriteria story) \<le> 7
                     then ''Story appears to be appropriately sized''
                     else ''Consider splitting - too many acceptance criteria'')\<rparr>,
      testable =
        \<lparr>score = (if length (acceptanceCriteria story) > 0 then 8 else 2),
         feedback = (if length (acceptanceCriteria story) > 0
                     then ''Acceptance criteria provide testability''
                     else ''Add acceptance criteria for testability'')\<rparr>,
      overallScore = 0,
      suggestions = []\<rparr>\<close>

definition dimensionScores :: "InvestAnalysis \<Rightarrow> int list" where
  "dimensionScores analysis =
     [score (independent analysis), score (negotiable analysis), score (valuable analysis),
      score (estimable analysis), score (small analysis), score (testable analysis)]"

definition suggest :: "bool \<Rightarrow> string \<Rightarrow> InvestAnalysis \<Rightarrow> InvestAnalysis" where
  "suggest c m analysis = (if c then analysis\<lparr>suggestions := suggestions analysis @ [m]\<rparr> else analysis)"

definition investAnalysis :: "Story \<Rightarrow> InvestAnalysis" where
  \<open>investAnalysis story =
     (let analysis = investDimensions story;
          scores = dimensionScores analysis;
          analysis = analysis\<lparr>overallScore :=
                       Math_round (of_int (foldl (+) 0 scores) / of_nat (length scores))\<rparr>;
          analysis = suggest (score (independent analysis) < 7)
                       ''Consider reducing dependencies on other stories'' analysis;
          analysis = suggest (score (valuable analysis) < 7)
                       ''Clarify the business value with a stronger "so that" clause'' analysis;
          analysis = suggest (score (estimable analysis) < 7)
                       ''Add more specific acceptance criteria'' analysis;
          analysis = suggest (score (small analysis) < 7)
                       ''Consider breaking this story into smaller pieces'' analysis;
          analysis = suggest (score (testable analysis) < 7)
                       ''Add measurable acceptance criteria'' analysis
      in analysis)\<close>

definition analyzeStoryQuality_try :: "'w env \<Rightarrow> (string \<times> json) list \<Rightarrow> (ToolResult, 'w) io" where
  \<open>analyzeStoryQuality_try env input =
     (let storyId = getProp input ''storyId'';
          featureId = getProp input ''featureId''
      in bind_io (storage_getStory env featureId storyId) (\<lambda>loaded.
           case loaded of
             None \<Rightarrow> return_io (failure (''Story "'' @ js_String storyId @ ''" not found''))
           | Some story \<Rightarrow>
               return_io (ok (JObj [(''storyId'', storyId),
                                    (''analysis'', analysisObject (investAnalysis story))]))))\<close>

definition analyzeStoryQuality :: "'w env \<Rightarrow> (string \<times> json) list \<Rightarrow> (ToolResult, 'w) io" where
  "analyzeStoryQuality env input =
     catch_io (analyzeStoryQuality_try env input)
       (\<lambda>e. return_io (failure (''Failed to analyze story: '' @ errorMessage e)))"

text \<open>
  \<^verbatim>\<open>execute\<close>: the switch on the tool name. The name is a \<^verbatim>\<open>ToolName\<close> only by an
  unchecked cast of what the model sent, so it is any string.
\<close>

definition execute :: "'w env \<Rightarrow> string \<Rightarrow> (string \<times> json) list \<Rightarrow> (ToolResult, 'w) io" where
  "execute env toolName input =
     (if toolName = ''create_story'' then createStory env input
      else if toolName = ''update_story'' then updateStory env input
      else if toolName = ''list_stories'' then listStories env input
      else if toolName = ''create_feature'' then createFeature env input
      else if toolName = ''list_features'' then listFeatures env
      else if toolName = ''search_stories'' then searchStories env input
      else if toolName = ''ask_user_question'' then askUserQuestion env input
      else if toolName = ''present_draft'' then presentDraft env input
      else if toolName = ''analyze_story_quality'' then analyzeStoryQuality env input
      else return_io (failure (''Unknown tool: '' @ toolName)))"

text \<open>The names of \<^verbatim>\<open>toolDefinitions\<close>, which are the cases of the switch.\<close>

definition toolNames :: "string list" where
  "toolNames =
     [''create_story'', ''update_story'', ''list_stories'', ''create_feature'', ''list_features'',
      ''search_stories'', ''ask_user_question'', ''present_draft'', ''analyze_story_quality'']"

section \<open>ConversationManager (src/ai)\<close>

text \<open>
  \<^verbatim>\<open>sendMessage\<close>: the client first, then the request. The state of a conversation is
  the private array \<^verbatim>\<open>messages\<close> together with the world.
\<close>

definition sendMessage :: "'w env \<Rightarrow> string \<Rightarrow> ConversationMessage list \<Rightarrow> (Response, 'w) io" where
  "sendMessage env systemPrompt messages =
     bind_io (getAnthropicClient env) (\<lambda>u. messages_create env systemPrompt messages)"

fun isToolUse :: "block \<Rightarrow> bool" where
  "isToolUse (ToolUseBlock i n inp) = True"
| "isToolUse b = False"

fun isText :: "block \<Rightarrow> bool" where
  "isText (TextBlock t) = True"
| "isText b = False"

text \<open>
  The loop over \<^verbatim>\<open>toolUseBlocks\<close>: one \<^verbatim>\<open>execute\<close> after the other, each result pushed
  with the id of its request. The list holds tool-use blocks only.
\<close>

fun runTools :: "'w env \<Rightarrow> block list \<Rightarrow> block list \<Rightarrow> (block list, 'w) io" where
  "runTools env [] toolResults = return_io toolResults"
| "runTools env (ToolUseBlock i toolName toolInput # rest) toolResults =
     bind_io (execute env toolName toolInput) (\<lambda>result.
       runTools env rest (toolResults @ [ToolResultBlock i result]))"
| "runTools env (b # rest) toolResults = runTools env rest toolResults"

definition handleResponse ::
  "'w env \<Rightarrow> Response \<Rightarrow> (bool, ConversationMessage list \<times> 'w) io" where
  "handleResponse env response = (\<lambda>(messages, w).
     let contentBlocks = r_content response;
         toolUseBlocks = filter isToolUse contentBlocks;
         hasText = list_ex isText contentBlocks
     in if length toolUseBlocks > 0
        then (let messages = messages @ [\<lparr>role = assistant, content = Blocks contentBlocks\<rparr>]
              in case runTools env toolUseBlocks [] w of
                   (Inl e, w') \<Rightarrow> (Inl e, (messages, w'))
                 | (Inr toolResults, w') \<Rightarrow>
                     (Inr True, (messages @ [\<lparr>role = user, content = Blocks toolResults\<rparr>], w')))
        else if hasText \<and> r_stop_reason response = Some end_turn
        then (Inr False, (messages @ [\<lparr>role = assistant, content = Blocks contentBlocks\<rparr>], w))
        else (Inr (r_stop_reason response = Some tool_use), (messages, w)))"

text \<open>
  One pass of the body of \<^verbatim>\<open>while (continueLoop)\<close>: the try block sends the history and
  handles the response; the catch block ends the loop. The result is the new value of
  \<^verbatim>\<open>continueLoop\<close> and the state.
\<close>

definition conversationRound_try ::
  "'w env \<Rightarrow> string \<Rightarrow> (bool, ConversationMessage list \<times> 'w) io" where
  "conversationRound_try env systemPrompt = (\<lambda>(messages, w).
     case sendMessage env systemPrompt messages w of
       (Inl e, w') \<Rightarrow> (Inl e, (messages, w'))
     | (Inr response, w') \<Rightarrow> handleResponse env response (messages, w'))"

definition conversationRound ::
  "'w env \<Rightarrow> string \<Rightarrow> ConversationMessage list \<times> 'w \<Rightarrow> bool \<times> (ConversationMessage list \<times> 'w)" where
  "conversationRound env systemPrompt s =
     (case conversationRound_try env systemPrompt s of
        (Inl e, s') \<Rightarrow> (False, s')
      | (Inr continueLoop, s') \<Rightarrow> (continueLoop, s'))"

text \<open>
  The loop has no bound on its rounds: it returns \<open>Some\<close> final state when it ends and is
  \<open>None\<close> when it runs forever.
\<close>

partial_function (option) processConversation ::
  "'w env \<Rightarrow> string \<Rightarrow> ConversationMessage list \<times> 'w \<Rightarrow> (ConversationMessage list \<times> 'w) option" where
  "processConversation env systemPrompt s =
     (case conversationRound env systemPrompt s of
        (continueLoop, s') \<Rightarrow>
          if continueLoop then processConversation env systemPrompt s' else Some s')"

definition chat ::
  "'w env \<Rightarrow> string \<Rightarrow> string \<Rightarrow> ConversationMessage list \<times> 'w \<Rightarrow> (ConversationMessage list \<times> 'w) option" where
  "chat env systemPrompt userMessage = (\<lambda>(messages, w).
     processConversation env systemPrompt
       (messages @ [\<lparr>role = user, content = Plain userMessage\<rparr>], w))"

definition getHistory :: "ConversationMessage list \<Rightarrow> ConversationMessage list" where
  "getHistory messages = messages"

definition clearHistory :: "ConversationMessage list \<Rightarrow> ConversationMessage list" where
  "clearHistory messages = []"

definition addContext :: "string \<Rightarrow> ConversationMessage list \<Rightarrow> ConversationMessage list" where
  "addContext context messages =
     messages @ [\<lparr>role = user, content = Plain (''[Context] '' @ context)\<rparr>,
                 \<lparr>role = assistant, content = Plain ''I understand the context. How can I help you?''\<rparr>]"


section \<open>Properties stated about the program\<close>

text \<open>
  The invocation ids of the tool-use requests of an assistant message, in order, and the
  ids that a list of blocks answers when it consists of tool results only.
\<close>

fun toolUseIds :: "block list \<Rightarrow> string list" where
  "toolUseIds [] = []"
| "toolUseIds (ToolUseBlock i n inp # bs) = i # toolUseIds bs"
| "toolUseIds (b # bs) = toolUseIds bs"

definition requestIds :: "ConversationMessage \<Rightarrow> string list" where
  "requestIds m =
     (case content m of
        Plain t \<Rightarrow> []
      | Blocks bs \<Rightarrow> if role m = assistant then toolUseIds bs else [])"

fun resultIds :: "block list \<Rightarrow> string list option" where
  "resultIds [] = Some []"
| "resultIds (ToolResultBlock i r # bs) = map_option ((#) i) (resultIds bs)"
| "resultIds (b # bs) = None"

text \<open>
  A message answers the requests \<open>ids\<close> when it is a user message whose content is exactly
  one tool result per request, in the order of the requests and with their ids.
\<close>

definition answers :: "string list \<Rightarrow> ConversationMessage \<Rightarrow> bool" where
  "answers ids m =
     (role m = user \<and> (case content m of Plain t \<Rightarrow> False | Blocks bs \<Rightarrow> resultIds bs = Some ids))"

text \<open>
  Round alternation of a history: a message with tool-use requests is not the last one and
  the message right after it answers them.
\<close>

fun alternation :: "ConversationMessage list \<Rightarrow> bool" where
  "alternation [] = True"
| "alternation [m] = (requestIds m = [])"
| "alternation (m # n # ms) =
     ((requestIds m = [] \<or> answers (requestIds m) n) \<and> alternation (n # ms))"

text \<open>
  The states of a \<^verbatim>\<open>ConversationManager\<close> over its life: constructed with no messages,
  then any sequence of completed \<open>chat\<close> calls, \<open>addContext\<close> and \<open>clearHistory\<close>, the world
  changing freely in between.
\<close>

inductive reachable ::
  "'w env \<Rightarrow> string \<Rightarrow> ConversationMessage list \<times> 'w \<Rightarrow> bool"
  for env :: "'w env" and systemPrompt :: string where
  constructed: "reachable env systemPrompt ([], w)"
| chatted: "reachable env systemPrompt s \<Longrightarrow> chat env systemPrompt userMessage s = Some s' \<Longrightarrow>
     reachable env systemPrompt s'"
| context_added: "reachable env systemPrompt (messages, w) \<Longrightarrow>
     reachable env systemPrompt (addContext context messages, w)"
| cleared: "reachable env systemPrompt (messages, w) \<Longrightarrow>
     reachable env systemPrompt (clearHistory messages, w)"
| world_moved: "reachable env systemPrompt (messages, w) \<Longrightarrow>
     reachable env systemPrompt (messages, w')"

code_pred reachable .

text \<open>
  The state after \<open>k\<close> rounds of the loop each of which ended with \<^verbatim>\<open>continueLoop\<close> true;
  \<open>None\<close> when the loop had ended before.
\<close>

fun afterRounds ::
  "'w env \<Rightarrow> string \<Rightarrow> nat \<Rightarrow> ConversationMessage list \<times> 'w \<Rightarrow> (ConversationMessage list \<times> 'w) option" where
  "afterRounds env systemPrompt 0 s = Some s"
| "afterRounds env systemPrompt (Suc k) s =
     (case conversationRound env systemPrompt s of
        (continueLoop, s') \<Rightarrow> if continueLoop then afterRounds env systemPrompt k s' else None)"




text \<open>The try block and the message prefix of the handler of each registered tool.\<close>

definition tryBlock :: "'w env \<Rightarrow> string \<Rightarrow> (string \<times> json) list \<Rightarrow> (ToolResult, 'w) io" where
  "tryBlock env toolName input =
     (if toolName = ''create_story'' then createStory_try env input
      else if toolName = ''update_story'' then updateStory_try env input
      else if toolName = ''list_stories'' then listStories_try env input
      else if toolName = ''create_feature'' then createFeature_try env input
      else if toolName = ''list_features'' then listFeatures_try env
      else if toolName = ''search_stories'' then searchStories_try env input
      else if toolName = ''ask_user_question'' then askUserQuestion_try env input
      else if toolName = ''present_draft'' then presentDraft_try env input
      else analyzeStoryQuality_try env input)"

definition failurePrefix :: "string \<Rightarrow> string" where
  "failurePrefix toolName =
     (if toolName = ''create_story'' then ''Failed to create story: ''
      else if toolName = ''update_story'' then ''Failed to update story: ''
      else if toolName = ''list_stories'' then ''Failed to list stories: ''
      else if toolName = ''create_feature'' then ''Failed to create feature: ''
      else if toolName = ''list_features'' then ''Failed to list features: ''
      else if toolName = ''search_stories'' then ''Failed to search stories: ''
      else if toolName = ''ask_user_question'' then ''Failed to get user input: ''
      else if toolName = ''present_draft'' then ''Failed to present draft: ''
      else ''Failed to analyze story: '')"

section \<open>A scripted environment\<close>

text \<open>
  A test double for concrete runs. The world is the number of gateway calls made so far:
  call \<open>n\<close> gets entry \<open>n\<close> of the script, and a call beyond the script fails. The
  project holds one story in the feature \<open>auth\<close> and one in the backlog, next to files that
  are not stories; every prompt is aborted by the user; writing fails.
\<close>

definition loginStory :: Story where
  "loginStory =
     \<lparr>sid = ''S-1'', title = ''User Login'', stype = UserStory, status = Draft, priority = Medium,
      feature = Some ''auth'', persona = None,
      asA = Some ''registered user'', iWant = Some ''to sign in'', soThat = Some ''I can see my data'',
      acceptanceCriteria =
        [\<lparr>ac_text = ''Valid password signs in'', completed = False\<rparr>,
         \<lparr>ac_text = ''Wrong password is refused'', completed = False\<rparr>,
         \<lparr>ac_text = ''Account locks after five attempts'', completed = False\<rparr>,
         \<lparr>ac_text = ''Session expires'', completed = False\<rparr>],
      openQuestions = [''Which identity provider?''],
      edgeCases = [], dependencies = [], relatedStories = [], estimate = None, tags = [''auth''],
      createdAt = ''2025-01-01T00:00:00.000Z'', updatedAt = ''2025-01-01T00:00:00.000Z''\<rparr>"

definition exportStory :: Story where
  "exportStory =
     \<lparr>sid = ''S-2'', title = ''Export report'', stype = UserStory, status = Ready, priority = High,
      feature = None, persona = None,
      asA = Some ''analyst'', iWant = Some ''to export a report'', soThat = Some ''I can share it'',
      acceptanceCriteria =
        [\<lparr>ac_text = ''CSV is offered'', completed = False\<rparr>,
         \<lparr>ac_text = ''PDF is offered'', completed = False\<rparr>,
         \<lparr>ac_text = ''Empty report exports headers'', completed = False\<rparr>],
      openQuestions = [],
      edgeCases = [], dependencies = [], relatedStories = [], estimate = None,
      tags = [CHR 0xC3 # CHR 0x89 # ''dition''],
      createdAt = ''2025-01-02T00:00:00.000Z'', updatedAt = ''2025-01-02T00:00:00.000Z''\<rparr>"

definition sampleTree :: "string \<Rightarrow> node option" where
  "sampleTree =
     map_of
       [(''/p/features'', Dir [''auth'', ''backlog'', ''README.md'']),
        (''/p/features/README.md'', File ''notes''),
        (''/p/features/auth'', Dir [''stories'']),
        (''/p/features/auth/stories'', Dir [''S-1.md'', ''todo.txt'']),
        (''/p/features/auth/stories/S-1.md'', File ''login''),
        (''/p/features/auth/stories/todo.txt'', File ''export''),
        (''/p/features/backlog'', Dir [''stories'']),
        (''/p/features/backlog/stories'', Dir [''S-2.md'', ''broken.md'']),
        (''/p/features/backlog/stories/S-2.md'', File ''export''),
        (''/p/features/backlog/stories/broken.md'', File ''???'')]"

text \<open>
  A folding for the runs: the letters A to Z, and the capital E with acute accent, whose
  encoding is the bytes C3 89 and whose small letter is C3 A9.
\<close>

definition lowerChar :: "char \<Rightarrow> char" where
  "lowerChar c =
     (case map_of (zip ''ABCDEFGHIJKLMNOPQRSTUVWXYZ'' ''abcdefghijklmnopqrstuvwxyz'') c of
        None \<Rightarrow> c
      | Some l \<Rightarrow> l)"

fun sampleLowerCase :: "string \<Rightarrow> string" where
  "sampleLowerCase [] = []"
| "sampleLowerCase [c] = [lowerChar c]"
| "sampleLowerCase (c # d # cs) =
     (if c = CHR 0xC3 \<and> d = CHR 0x89 then CHR 0xC3 # CHR 0xA9 # sampleLowerCase cs
      else lowerChar c # sampleLowerCase (d # cs))"

definition sampleParser :: "string \<Rightarrow> exn + Story" where
  "sampleParser text =
     (if text = ''login'' then Inr loginStory
      else if text = ''export'' then Inr exportStory
      else Inl (Error ''Required''))"

definition scriptedGateway ::
  "(exn + Response) list \<Rightarrow> string \<Rightarrow> ConversationMessage list \<Rightarrow> (Response, nat) io" where
  "scriptedGateway script systemPrompt messages n =
     (if n < length script then (script ! n, Suc n)
      else (Inl (Error ''Connection error.''), Suc n))"

definition scriptedEnv :: "(exn + Response) list \<Rightarrow> nat env" where
  "scriptedEnv script =
     \<lparr>projectPath = ''/p'',
      fs = (\<lambda>w. sampleTree),
      markdownToStory = sampleParser,
      markdownToFeature = (\<lambda>text. Inl (Error ''Required'')),
      fs_writeStory = (\<lambda>featureId story. throw_io (Error ''EACCES: permission denied'')),
      fs_writeFeature = (\<lambda>feat. throw_io (Error ''EACCES: permission denied'')),
      now = (\<lambda>w. (''2025-01-03T00:00:00.000Z'', w)),
      askSelect = (\<lambda>question options. throw_io (ExitPromptError ''User force closed the prompt'')),
      askMultiSelect = (\<lambda>question options. throw_io (ExitPromptError ''User force closed the prompt'')),
      askQuestion = (\<lambda>message. throw_io (ExitPromptError ''User force closed the prompt'')),
      askConfirm = (\<lambda>message dflt. throw_io (ExitPromptError ''User force closed the prompt'')),
      getAnthropicClient = return_io (),
      messages_create = scriptedGateway script,
      toLowerCase = sampleLowerCase\<rparr>"








text \<open>Responses of the model used in the runs below.\<close>

definition toolRound :: Response where
  "toolRound =
     \<lparr>r_content = [TextBlock ''Let me check.'',
                   ToolUseBlock ''toolu_1'' ''list_features'' [],
                   ToolUseBlock ''toolu_2'' ''present_draft'' [(''title'', JStr ''Login'')]],
      r_stop_reason = Some tool_use\<rparr>"


definition finalAnswer :: Response where
  "finalAnswer = \<lparr>r_content = [TextBlock ''Done.''], r_stop_reason = Some end_turn\<rparr>"

definition emptyAnswer :: Response where
  "emptyAnswer = \<lparr>r_content = [], r_stop_reason = Some end_turn\<rparr>"

definition truncatedAnswer :: Response where
  "truncatedAnswer =
     \<lparr>r_content = [TextBlock ''The story could''], r_stop_reason = Some max_tokens\<rparr>"

section \<open>The executor never throws\<close>

lemma catch_io_returns:
  "\<exists>r w'. catch_io m (\<lambda>e. return_io (f e)) w = (Inr r, w')"
  by (cases "m w") (auto simp: catch_io_def return_io_def split: sum.splits)

lemma catch_io_throw:
  "m w = (Inl e, w') \<Longrightarrow> catch_io m (\<lambda>e. return_io (f e)) w = (Inr (f e), w')"
  by (simp add: catch_io_def return_io_def)

lemma execute_catch:
  "toolName \<in> set toolNames \<Longrightarrow>
   execute env toolName input =
     catch_io (tryBlock env toolName input)
       (\<lambda>e. return_io (failure (failurePrefix toolName @ errorMessage e)))"
  by (auto simp: toolNames_def execute_def tryBlock_def failurePrefix_def createStory_def
      updateStory_def listStories_def createFeature_def listFeatures_def searchStories_def
      askUserQuestion_def presentDraft_def analyzeStoryQuality_def)

lemma execute_unknown:
  "toolName \<notin> set toolNames \<Longrightarrow>
   execute env toolName input w = (Inr (failure (''Unknown tool: '' @ toolName)), w)"
  by (simp add: toolNames_def execute_def return_io_def)

lemma execute_returns: "\<exists>r w'. execute env toolName input w = (Inr r, w')"
proof (cases "toolName \<in> set toolNames")
  case True
  then show ?thesis by (simp only: execute_catch catch_io_returns)
next
  case False
  then show ?thesis by (simp add: execute_unknown)
qed

text \<open>
  C7. A tool name that is none of the nine registered ones makes \<open>execute\<close> return, for any
  input and any world, the result with \<open>success\<close> false and the error
  \<^verbatim>\<open>Unknown tool: <name>\<close>; nothing is thrown and the world is as before.
\<close>

theorem unknown_tool_tolerance:
  assumes "toolName \<notin> set toolNames"
  shows "execute env toolName input w =
           (Inr \<lparr>success = False, data = None, error = Some (''Unknown tool: '' @ toolName),
                 requiresUserInput = None, userInput = None\<rparr>, w)"
  using assms by (simp add: execute_unknown failure_def)

theorem unknown_tool_tolerance_witness:
  "''not_a_real_tool'' \<notin> set toolNames \<and>
   execute (scriptedEnv []) ''not_a_real_tool'' [] 0 =
     (Inr \<lparr>success = False, data = None, error = Some ''Unknown tool: not_a_real_tool'',
           requiresUserInput = None, userInput = None\<rparr>, 0)"
proof -
  have h: "''not_a_real_tool'' \<notin> set toolNames" by (simp add: toolNames_def)
  show ?thesis using h unknown_tool_tolerance [OF h, of "scriptedEnv []" "[]" 0] by simp
qed

text \<open>
  C10. For every tool name, registered or not, every input and every behaviour of the
  store and of the prompts, \<open>execute\<close> returns a tool result and never throws; and for
  each of the nine registered tools, whatever the try block of its handler throws (the
  rejection of an aborted prompt included) becomes the result with \<open>success\<close> false and
  the handler's message followed by the message of the error.
\<close>

theorem execute_never_throws:
  "(\<exists>r w'. execute env toolName input w = (Inr r, w')) \<and>
   (toolName \<in> set toolNames \<longrightarrow>
      (\<forall>e w'. tryBlock env toolName input w = (Inl e, w') \<longrightarrow>
         execute env toolName input w =
           (Inr \<lparr>success = False, data = None,
                 error = Some (failurePrefix toolName @ errorMessage e),
                 requiresUserInput = None, userInput = None\<rparr>, w')))"
  using execute_returns [of env toolName input w]
  by (auto simp: execute_catch catch_io_throw failure_def)

theorem execute_never_throws_witness:
  "''present_draft'' \<in> set toolNames \<and>
   tryBlock (scriptedEnv []) ''present_draft'' [] 0 =
     (Inl (ExitPromptError ''User force closed the prompt''), 0) \<and>
   execute (scriptedEnv []) ''present_draft'' [] 0 =
     (Inr \<lparr>success = False, data = None,
           error = Some ''Failed to present draft: User force closed the prompt'',
           requiresUserInput = None, userInput = None\<rparr>, 0)"
proof -
  have h1: "''present_draft'' \<in> set toolNames" by (simp add: toolNames_def)
  have h2: "tryBlock (scriptedEnv []) ''present_draft'' [] 0 =
     (Inl (ExitPromptError ''User force closed the prompt''), 0)"
    by (simp add: tryBlock_def presentDraft_try_def bind_io_def scriptedEnv_def throw_io_def)
  from execute_never_throws [of "scriptedEnv []" "''present_draft''" "[]" 0]
  have "execute (scriptedEnv []) ''present_draft'' [] 0 =
     (Inr \<lparr>success = False, data = None,
           error = Some (failurePrefix ''present_draft''
                         @ errorMessage (ExitPromptError ''User force closed the prompt'')),
           requiresUserInput = None, userInput = None\<rparr>, 0)"
    using h1 h2 by blast
  then show ?thesis using h1 h2 by (simp add: failurePrefix_def)
qed

section \<open>Evaluation in the scripted environment\<close>

lemmas eval_io = bind_io_def return_io_def throw_io_def catch_io_def lift_io_def bindE_def
lemmas eval_loop = chat_def processConversation.simps conversationRound_def
  conversationRound_try_def sendMessage_def handleResponse_def Let_def
lemmas eval_fs = existsSync_def readdirSync_def isDirectory_def readFileSync_def
  getFeaturesDir_def getFeatureDir_def getStoriesDir_def getStoryPath_def getFeaturePath_def
  path_join_def directories_def sampleTree_def sampleParser_def endsWith_def

lemma scripted_simps [simp]:
  "projectPath (scriptedEnv sc) = ''/p''"
  "fs (scriptedEnv sc) = (\<lambda>w. sampleTree)"
  "markdownToStory (scriptedEnv sc) = sampleParser"
  "getAnthropicClient (scriptedEnv sc) = return_io ()"
  "messages_create (scriptedEnv sc) = scriptedGateway sc"
  "askConfirm (scriptedEnv sc) = (\<lambda>message dflt. throw_io (ExitPromptError ''User force closed the prompt''))"
  "askSelect (scriptedEnv sc) = (\<lambda>question options. throw_io (ExitPromptError ''User force closed the prompt''))"
  by (simp_all add: scriptedEnv_def)

lemma list_features_eval:
  "execute (scriptedEnv sc) ''list_features'' [] n =
     (Inr (ok (JObj [(''count'', JNum 0), (''features'', JArr [])])), n)"
  by (simp add: execute_def listFeatures_def listFeatures_try_def storage_listFeatures_def
      eval_io eval_fs Let_def)

lemma present_draft_eval:
  "execute (scriptedEnv sc) ''present_draft'' inp n =
     (Inr (failure ''Failed to present draft: User force closed the prompt''), n)"
  by (simp add: execute_def presentDraft_def presentDraft_try_def eval_io)

section \<open>The round loop\<close>

lemma processConversation_stop:
  "conversationRound env sp s = (False, s') \<Longrightarrow> processConversation env sp s = Some s'"
  by (subst processConversation.simps) simp

lemma processConversation_continue:
  "conversationRound env sp s = (True, s') \<Longrightarrow>
   processConversation env sp s = processConversation env sp s'"
  by (subst processConversation.simps) simp

lemma afterRounds_processConversation:
  "afterRounds env sp k s = Some s' \<Longrightarrow>
   processConversation env sp s = processConversation env sp s'"
proof (induction k arbitrary: s)
  case 0
  then show ?case by simp
next
  case (Suc k)
  obtain c s1 where r: "conversationRound env sp s = (c, s1)" by (cases "conversationRound env sp s")
  with Suc.prems have c: "c" and a: "afterRounds env sp k s1 = Some s'"
    by (auto split: if_splits)
  from r c have "processConversation env sp s = processConversation env sp s1"
    by (simp add: processConversation_continue)
  with Suc.IH [OF a] show ?case by simp
qed

lemma processConversation_invariant:
  assumes run: "processConversation env sp s = Some t"
    and init: "I s"
    and step: "\<And>s c s'. I s \<Longrightarrow> conversationRound env sp s = (c, s') \<Longrightarrow> I s'"
  shows "I t"
proof -
  have "e = env \<longrightarrow> p = sp \<longrightarrow> I s \<longrightarrow> I t"
    if a: "processConversation e p s = Some t" for e p s t
  proof (rule processConversation.raw_induct
      [where P = "\<lambda>e p s t. e = env \<longrightarrow> p = sp \<longrightarrow> I s \<longrightarrow> I t", OF _ a])
    fix pc e p s y
    assume IH: "\<And>e p s y. pc e p s = Some y \<Longrightarrow> e = env \<longrightarrow> p = sp \<longrightarrow> I s \<longrightarrow> I y"
      and eq: "(case conversationRound e p s of
                  (c, s') \<Rightarrow> if c then pc e p s' else Some s') = Some y"
    show "e = env \<longrightarrow> p = sp \<longrightarrow> I s \<longrightarrow> I y"
    proof (intro impI)
      assume e: "e = env" and p: "p = sp" and s: "I s"
      obtain c s1 where r: "conversationRound env sp s = (c, s1)"
        by (cases "conversationRound env sp s")
      from step [OF s r] have s1: "I s1" .
      show "I y"
      proof (cases c)
        case True
        with eq e p r have "pc env sp s1 = Some y" by simp
        from IH [OF this] s1 show ?thesis by simp
      next
        case False
        with eq e p r have "y = s1" by simp
        with s1 show ?thesis by simp
      qed
    qed
  qed
  with run init show ?thesis by blast
qed

lemma runTools_returns:
  "\<exists>rs w'. runTools env bs acc w = (Inr rs, w') \<and>
            resultIds rs = map_option (\<lambda>ids. ids @ toolUseIds bs) (resultIds acc)"
proof (induction bs arbitrary: acc w)
  case Nil
  then show ?case by (simp add: return_io_def option.map_ident)
next
  case (Cons b bs)
  show ?case
  proof (cases b)
    case (ToolUseBlock i n inp)
    obtain r w1 where ex: "execute env n inp w = (Inr r, w1)"
      using execute_returns [of env n inp w] by blast
    from Cons.IH [of "acc @ [ToolResultBlock i r]" w1]
    obtain rs w' where run: "runTools env bs (acc @ [ToolResultBlock i r]) w1 = (Inr rs, w')"
      and ids: "resultIds rs = map_option (\<lambda>ids. ids @ toolUseIds bs) (resultIds (acc @ [ToolResultBlock i r]))"
      by blast
    have app: "resultIds (acc @ [ToolResultBlock i r]) = map_option (\<lambda>ids. ids @ [i]) (resultIds acc)"
      by (induction acc rule: resultIds.induct) (simp_all add: option.map_comp comp_def)
    show ?thesis
      using ToolUseBlock ex run ids app
      by (simp add: bind_io_def option.map_comp comp_def)
  qed (use Cons.IH [of acc w] in simp_all)
qed

lemma toolUseIds_filter: "toolUseIds (filter isToolUse bs) = toolUseIds bs"
  by (induction bs rule: toolUseIds.induct) simp_all

lemma toolUseIds_none: "filter isToolUse bs = [] \<Longrightarrow> toolUseIds bs = []"
  using toolUseIds_filter [of bs] by simp

lemma requestIds_user [simp]: "requestIds \<lparr>role = user, content = c\<rparr> = []"
  by (simp add: requestIds_def split: content.splits)

lemma alternation_snoc:
  "alternation ms \<Longrightarrow> requestIds m = [] \<Longrightarrow> alternation (ms @ [m])"
  by (induction ms rule: alternation.induct) auto

lemma alternation_answered:
  "alternation ms \<Longrightarrow> answers (requestIds a) u \<Longrightarrow> requestIds u = [] \<Longrightarrow>
   alternation (ms @ [a, u])"
  by (induction ms rule: alternation.induct) auto

lemma handleResponse_alternation:
  assumes "alternation messages"
    and "handleResponse env response (messages, w) = (res, (messages', w'))"
  shows "alternation messages'"
proof (cases "filter isToolUse (r_content response) = []")
  case True
  have "requestIds \<lparr>role = assistant, content = Blocks (r_content response)\<rparr> = []"
    using toolUseIds_none [OF True] by (simp add: requestIds_def)
  with assms True show ?thesis
    by (auto simp: handleResponse_def Let_def alternation_snoc split: if_splits)
next
  case False
  let ?a = "\<lparr>role = assistant, content = Blocks (r_content response)\<rparr>"
  obtain rs w1 where run: "runTools env (filter isToolUse (r_content response)) [] w = (Inr rs, w1)"
    and ids: "resultIds rs = Some (toolUseIds (filter isToolUse (r_content response)))"
    using runTools_returns [of env "filter isToolUse (r_content response)" "[]" w] by auto
  have "answers (requestIds ?a) \<lparr>role = user, content = Blocks rs\<rparr>"
    using ids by (simp add: answers_def requestIds_def toolUseIds_filter)
  then have "alternation (messages @ [?a, \<lparr>role = user, content = Blocks rs\<rparr>])"
    using assms(1) by (simp add: alternation_answered)
  with assms(2) False run show ?thesis
    by (simp add: handleResponse_def Let_def)
qed

lemma conversationRound_alternation:
  assumes "alternation messages"
    and "conversationRound env sp (messages, w) = (c, (messages', w'))"
  shows "alternation messages'"
proof (cases "sendMessage env sp messages w")
  case (Pair r w1)
  show ?thesis
  proof (cases r)
    case (Inl e)
    with Pair assms show ?thesis
      by (simp add: conversationRound_def conversationRound_try_def)
  next
    case (Inr response)
    obtain res m2 w2 where h: "handleResponse env response (messages, w1) = (res, (m2, w2))"
      by (metis surj_pair)
    from handleResponse_alternation [OF assms(1) h] have "alternation m2" .
    with Pair Inr h assms(2) show ?thesis
      by (auto simp: conversationRound_def conversationRound_try_def split: sum.splits)
  qed
qed

lemma chat_alternation:
  assumes "alternation messages"
    and "chat env systemPrompt userMessage (messages, w) = Some (messages', w')"
  shows "alternation messages'"
proof -
  let ?I = "\<lambda>s. alternation (fst s)"
  have init: "?I (messages @ [\<lparr>role = user, content = Plain userMessage\<rparr>], w)"
    using assms(1) by (simp add: alternation_snoc)
  have run: "processConversation env systemPrompt
               (messages @ [\<lparr>role = user, content = Plain userMessage\<rparr>], w) = Some (messages', w')"
    using assms(2) by (simp add: chat_def)
  have step: "\<And>s c s'. ?I s \<Longrightarrow> conversationRound env systemPrompt s = (c, s') \<Longrightarrow> ?I s'"
    using conversationRound_alternation by (metis prod.collapse)
  from processConversation_invariant [where I = ?I, OF run init step]
  show ?thesis by simp
qed

lemma addContext_alternation:
  "alternation messages \<Longrightarrow> alternation (addContext context messages)"
proof -
  assume a: "alternation messages"
  have "alternation ((messages @ [\<lparr>role = user, content = Plain (''[Context] '' @ context)\<rparr>])
      @ [\<lparr>role = assistant, content = Plain ''I understand the context. How can I help you?''\<rparr>])"
    by (intro alternation_snoc a) (simp_all add: requestIds_def)
  then show ?thesis by (simp add: addContext_def)
qed

text \<open>
  C1. Round alternation. In every state that a \<^verbatim>\<open>ConversationManager\<close> reaches, so after
  every completed \<open>chat\<close> call, every assistant message of the history with one or more
  tool-use requests is followed immediately by a user message that consists of exactly one
  tool result per request, in the order of the requests and with their invocation ids.
\<close>

theorem round_alternation:
  assumes "reachable env systemPrompt (messages, w)"
  shows "alternation messages"
proof -
  have "alternation (fst s)" if "reachable env systemPrompt s" for s
    using that
  proof (induction rule: reachable.induct)
    case (chatted s userMessage s')
    then show ?case using chat_alternation [of "fst s" env systemPrompt userMessage "snd s" "fst s'" "snd s'"]
      by simp
  qed (simp_all add: addContext_alternation clearHistory_def)
  from this [OF assms] show ?thesis by simp
qed


theorem round_alternation_witness:
  "reachable (scriptedEnv [Inr toolRound, Inr finalAnswer]) ''system''
     ([\<lparr>role = user, content = Plain ''List the features''\<rparr>,
       \<lparr>role = assistant, content = Blocks (r_content toolRound)\<rparr>,
       \<lparr>role = user, content = Blocks
          [ToolResultBlock ''toolu_1'' (ok (JObj [(''count'', JNum 0), (''features'', JArr [])])),
           ToolResultBlock ''toolu_2''
             (failure ''Failed to present draft: User force closed the prompt'')]\<rparr>,
       \<lparr>role = assistant, content = Blocks [TextBlock ''Done.'']\<rparr>], 2) \<and>
   alternation
     [\<lparr>role = user, content = Plain ''List the features''\<rparr>,
      \<lparr>role = assistant, content = Blocks (r_content toolRound)\<rparr>,
      \<lparr>role = user, content = Blocks
         [ToolResultBlock ''toolu_1'' (ok (JObj [(''count'', JNum 0), (''features'', JArr [])])),
          ToolResultBlock ''toolu_2''
            (failure ''Failed to present draft: User force closed the prompt'')]\<rparr>,
      \<lparr>role = assistant, content = Blocks [TextBlock ''Done.'']\<rparr>]"
proof -
  have run: "chat (scriptedEnv [Inr toolRound, Inr finalAnswer]) ''system'' ''List the features'' ([], 0) =
     Some ([\<lparr>role = user, content = Plain ''List the features''\<rparr>,
            \<lparr>role = assistant, content = Blocks (r_content toolRound)\<rparr>,
            \<lparr>role = user, content = Blocks
               [ToolResultBlock ''toolu_1'' (ok (JObj [(''count'', JNum 0), (''features'', JArr [])])),
                ToolResultBlock ''toolu_2''
                  (failure ''Failed to present draft: User force closed the prompt'')]\<rparr>,
            \<lparr>role = assistant, content = Blocks [TextBlock ''Done.'']\<rparr>], 2)"
    by (simp add: eval_loop eval_io scriptedGateway_def toolRound_def finalAnswer_def
        list_features_eval present_draft_eval)
  have h: "reachable (scriptedEnv [Inr toolRound, Inr finalAnswer]) ''system''
     ([\<lparr>role = user, content = Plain ''List the features''\<rparr>,
       \<lparr>role = assistant, content = Blocks (r_content toolRound)\<rparr>,
       \<lparr>role = user, content = Blocks
          [ToolResultBlock ''toolu_1'' (ok (JObj [(''count'', JNum 0), (''features'', JArr [])])),
           ToolResultBlock ''toolu_2''
             (failure ''Failed to present draft: User force closed the prompt'')]\<rparr>,
       \<lparr>role = assistant, content = Blocks [TextBlock ''Done.'']\<rparr>], 2)"
    by (rule reachable.chatted [OF reachable.constructed run])
  from h round_alternation [OF h] show ?thesis by (rule conjI)
qed

lemma handleResponse_no_tools:
  assumes "filter isToolUse (r_content response) = []"
  shows "handleResponse env response (messages, w) =
          (if list_ex isText (r_content response) \<and> r_stop_reason response = Some end_turn
           then (Inr False, (messages @ [\<lparr>role = assistant, content = Blocks (r_content response)\<rparr>], w))
           else (Inr (r_stop_reason response = Some tool_use), (messages, w)))"
  using assms by (simp add: handleResponse_def Let_def)

lemma conversationRound_no_tools:
  assumes "sendMessage env sp messages w = (Inr response, w')"
    and "filter isToolUse (r_content response) = []"
  shows "conversationRound env sp (messages, w) =
          (if list_ex isText (r_content response) \<and> r_stop_reason response = Some end_turn
           then (False, (messages @ [\<lparr>role = assistant, content = Blocks (r_content response)\<rparr>], w'))
           else (r_stop_reason response = Some tool_use, (messages, w')))"
  using assms by (simp add: conversationRound_def conversationRound_try_def handleResponse_no_tools)

text \<open>
  C3, as amended. When the gateway returns a response without tool-use items whose stop
  reason is \<^verbatim>\<open>end_turn\<close>, the loop ends after that single round; the response is appended
  as one assistant message when it contains a text item, and nothing is appended when it
  contains none.
\<close>

theorem no_tool_termination:
  assumes "sendMessage env systemPrompt messages w = (Inr response, w')"
    and "filter isToolUse (r_content response) = []"
    and "r_stop_reason response = Some end_turn"
  shows "processConversation env systemPrompt (messages, w) =
           Some (if list_ex isText (r_content response)
                 then messages @ [\<lparr>role = assistant, content = Blocks (r_content response)\<rparr>]
                 else messages, w')"
  using conversationRound_no_tools [OF assms(1,2)] assms(3)
  by (auto simp: processConversation_stop)

theorem no_tool_termination_witness:
  "sendMessage (scriptedEnv [Inr finalAnswer]) ''system'' [\<lparr>role = user, content = Plain ''Hello''\<rparr>] 0 =
     (Inr finalAnswer, 1) \<and>
   filter isToolUse (r_content finalAnswer) = [] \<and>
   r_stop_reason finalAnswer = Some end_turn \<and>
   processConversation (scriptedEnv [Inr finalAnswer]) ''system''
       ([\<lparr>role = user, content = Plain ''Hello''\<rparr>], 0) =
     Some ([\<lparr>role = user, content = Plain ''Hello''\<rparr>,
            \<lparr>role = assistant, content = Blocks [TextBlock ''Done.'']\<rparr>], 1)"
proof -
  have h1: "sendMessage (scriptedEnv [Inr finalAnswer]) ''system'' [\<lparr>role = user, content = Plain ''Hello''\<rparr>] 0 =
     (Inr finalAnswer, 1)"
    by (simp add: sendMessage_def eval_io scriptedGateway_def)
  have h2: "filter isToolUse (r_content finalAnswer) = []" by (simp add: finalAnswer_def)
  have h3: "r_stop_reason finalAnswer = Some end_turn" by (simp add: finalAnswer_def)
  from no_tool_termination [OF h1 h2 h3] h1 h2 h3 show ?thesis by (simp add: finalAnswer_def)
qed

text \<open>
  C3 as stated fails on a response with no content: the stop reason is \<^verbatim>\<open>end_turn\<close> and
  there is no tool use, the call ends after one gateway call, and the history holds the
  user message only.
\<close>

theorem no_tool_termination_counterexample:
  "filter isToolUse (r_content emptyAnswer) = [] \<and>
   r_stop_reason emptyAnswer = Some end_turn \<and>
   chat (scriptedEnv [Inr emptyAnswer]) ''system'' ''Hello'' ([], 0) =
     Some ([\<lparr>role = user, content = Plain ''Hello''\<rparr>], 1)"
  by (simp add: eval_loop eval_io scriptedGateway_def emptyAnswer_def)

text \<open>
  C4, as amended. When the gateway returns a response without tool-use items whose stop
  reason is not \<^verbatim>\<open>end_turn\<close>, the history stays as it is, and the loop goes on to another
  round only when the stop reason is \<^verbatim>\<open>tool_use\<close>; with any other stop reason, such as
  \<^verbatim>\<open>max_tokens\<close> or none, the loop ends and the call returns.
\<close>

theorem other_stop_reason:
  assumes "sendMessage env systemPrompt messages w = (Inr response, w')"
    and "filter isToolUse (r_content response) = []"
    and "r_stop_reason response \<noteq> Some end_turn"
  shows "processConversation env systemPrompt (messages, w) =
           (if r_stop_reason response = Some tool_use
            then processConversation env systemPrompt (messages, w')
            else Some (messages, w'))"
  using conversationRound_no_tools [OF assms(1,2)] assms(3)
  by (auto simp: processConversation_stop processConversation_continue)

theorem other_stop_reason_witness:
  "sendMessage (scriptedEnv [Inr truncatedAnswer, Inr finalAnswer]) ''system''
       [\<lparr>role = user, content = Plain ''Hello''\<rparr>] 0 = (Inr truncatedAnswer, 1) \<and>
   filter isToolUse (r_content truncatedAnswer) = [] \<and>
   r_stop_reason truncatedAnswer \<noteq> Some end_turn \<and>
   processConversation (scriptedEnv [Inr truncatedAnswer, Inr finalAnswer]) ''system''
       ([\<lparr>role = user, content = Plain ''Hello''\<rparr>], 0) =
     Some ([\<lparr>role = user, content = Plain ''Hello''\<rparr>], 1)"
proof -
  have h1: "sendMessage (scriptedEnv [Inr truncatedAnswer, Inr finalAnswer]) ''system''
       [\<lparr>role = user, content = Plain ''Hello''\<rparr>] 0 = (Inr truncatedAnswer, 1)"
    by (simp add: sendMessage_def eval_io scriptedGateway_def)
  have h2: "filter isToolUse (r_content truncatedAnswer) = []" by (simp add: truncatedAnswer_def)
  have h3: "r_stop_reason truncatedAnswer \<noteq> Some end_turn" by (simp add: truncatedAnswer_def)
  from other_stop_reason [OF h1 h2 h3] h1 h2 h3 show ?thesis by (simp add: truncatedAnswer_def)
qed

text \<open>
  C4 as stated fails on a text response cut off by \<^verbatim>\<open>max_tokens\<close>: the round ends the
  loop, and the call returns after one gateway call although the script holds a second
  response.
\<close>

theorem fallback_counterexample:
  "filter isToolUse (r_content truncatedAnswer) = [] \<and>
   r_stop_reason truncatedAnswer \<noteq> Some end_turn \<and>
   r_stop_reason truncatedAnswer \<noteq> Some tool_use \<and>
   conversationRound (scriptedEnv [Inr truncatedAnswer, Inr finalAnswer]) ''system''
       ([\<lparr>role = user, content = Plain ''Hello''\<rparr>], 0) =
     (False, ([\<lparr>role = user, content = Plain ''Hello''\<rparr>], 1)) \<and>
   chat (scriptedEnv [Inr truncatedAnswer, Inr finalAnswer]) ''system'' ''Hello'' ([], 0) =
     Some ([\<lparr>role = user, content = Plain ''Hello''\<rparr>], 1)"
  by (simp add: eval_loop eval_io scriptedGateway_def truncatedAnswer_def)

text \<open>
  C6. If \<open>sendMessage\<close> throws in the round that follows \<open>k\<close> completed rounds of a
  \<open>chat\<close> call, the call returns with the history as it was at the end of those rounds
  (for \<open>k = 0\<close>: the old history and the new user message); nothing of the failing round
  is appended, and the world is the one the failing call left, so that no further call
  was made.
\<close>

theorem gateway_error_purity:
  assumes "afterRounds env systemPrompt k
             (messages @ [\<lparr>role = user, content = Plain userMessage\<rparr>], w) = Some (history, wk)"
    and "sendMessage env systemPrompt history wk = (Inl e, w')"
  shows "chat env systemPrompt userMessage (messages, w) = Some (history, w')"
proof -
  have "conversationRound env systemPrompt (history, wk) = (False, (history, w'))"
    using assms(2) by (simp add: conversationRound_def conversationRound_try_def)
  then have "processConversation env systemPrompt (history, wk) = Some (history, w')"
    by (rule processConversation_stop)
  with afterRounds_processConversation [OF assms(1)] show ?thesis
    by (simp add: chat_def)
qed

theorem gateway_error_purity_witness:
  "afterRounds (scriptedEnv [Inr toolRound]) ''system'' 1
       ([] @ [\<lparr>role = user, content = Plain ''List the features''\<rparr>], 0) =
     Some ([\<lparr>role = user, content = Plain ''List the features''\<rparr>,
            \<lparr>role = assistant, content = Blocks (r_content toolRound)\<rparr>,
            \<lparr>role = user, content = Blocks
               [ToolResultBlock ''toolu_1'' (ok (JObj [(''count'', JNum 0), (''features'', JArr [])])),
                ToolResultBlock ''toolu_2''
                  (failure ''Failed to present draft: User force closed the prompt'')]\<rparr>], 1) \<and>
   sendMessage (scriptedEnv [Inr toolRound]) ''system''
       [\<lparr>role = user, content = Plain ''List the features''\<rparr>,
        \<lparr>role = assistant, content = Blocks (r_content toolRound)\<rparr>,
        \<lparr>role = user, content = Blocks
           [ToolResultBlock ''toolu_1'' (ok (JObj [(''count'', JNum 0), (''features'', JArr [])])),
            ToolResultBlock ''toolu_2''
              (failure ''Failed to present draft: User force closed the prompt'')]\<rparr>] 1 =
     (Inl (Error ''Connection error.''), 2) \<and>
   chat (scriptedEnv [Inr toolRound]) ''system'' ''List the features'' ([], 0) =
     Some ([\<lparr>role = user, content = Plain ''List the features''\<rparr>,
            \<lparr>role = assistant, content = Blocks (r_content toolRound)\<rparr>,
            \<lparr>role = user, content = Blocks
               [ToolResultBlock ''toolu_1'' (ok (JObj [(''count'', JNum 0), (''features'', JArr [])])),
                ToolResultBlock ''toolu_2''
                  (failure ''Failed to present draft: User force closed the prompt'')]\<rparr>], 2)"
proof -
  let ?h = "[\<lparr>role = user, content = Plain ''List the features''\<rparr>,
            \<lparr>role = assistant, content = Blocks (r_content toolRound)\<rparr>,
            \<lparr>role = user, content = Blocks
               [ToolResultBlock ''toolu_1'' (ok (JObj [(''count'', JNum 0), (''features'', JArr [])])),
                ToolResultBlock ''toolu_2''
                  (failure ''Failed to present draft: User force closed the prompt'')]\<rparr>]"
  have h1: "afterRounds (scriptedEnv [Inr toolRound]) ''system'' 1
       ([] @ [\<lparr>role = user, content = Plain ''List the features''\<rparr>], 0) = Some (?h, 1)"
    by (simp add: conversationRound_def conversationRound_try_def sendMessage_def
        handleResponse_def Let_def eval_io scriptedGateway_def toolRound_def
        list_features_eval present_draft_eval)
  have h2: "sendMessage (scriptedEnv [Inr toolRound]) ''system'' ?h 1 =
     (Inl (Error ''Connection error.''), 2)"
    by (simp add: sendMessage_def eval_io scriptedGateway_def)
  from gateway_error_purity [OF h1 h2] h1 h2 show ?thesis by simp
qed

section \<open>Prompt cancellation\<close>







section \<open>The INVEST analysis\<close>

lemma suggest_simps [simp]:
  "independent (suggest c m a) = independent a"
  "negotiable (suggest c m a) = negotiable a"
  "valuable (suggest c m a) = valuable a"
  "estimable (suggest c m a) = estimable a"
  "small (suggest c m a) = small a"
  "testable (suggest c m a) = testable a"
  "overallScore (suggest c m a) = overallScore a"
  "suggestions (suggest c m a) = suggestions a @ (if c then [m] else [])"
  by (simp_all add: suggest_def)

lemma investDimensions_scores:
  "score (independent (investDimensions story)) = (if dependencies story = [] then 10 else 5)"
  "score (negotiable (investDimensions story)) = (if openQuestions story = [] then 6 else 8)"
  "score (valuable (investDimensions story)) = (if truthyString (soThat story) then 8 else 4)"
  "score (estimable (investDimensions story)) = (if length (acceptanceCriteria story) < 3 then 5 else 8)"
  "score (small (investDimensions story)) = (if length (acceptanceCriteria story) \<le> 7 then 8 else 4)"
  "score (testable (investDimensions story)) = (if acceptanceCriteria story = [] then 2 else 8)"
  "suggestions (investDimensions story) = []"
  by (simp_all add: investDimensions_def)

lemma investAnalysis_dimensions:
  "independent (investAnalysis story) = independent (investDimensions story)"
  "negotiable (investAnalysis story) = negotiable (investDimensions story)"
  "valuable (investAnalysis story) = valuable (investDimensions story)"
  "estimable (investAnalysis story) = estimable (investDimensions story)"
  "small (investAnalysis story) = small (investDimensions story)"
  "testable (investAnalysis story) = testable (investDimensions story)"
  by (simp_all add: investAnalysis_def Let_def)

lemma dimensionScores_investAnalysis:
  "dimensionScores (investAnalysis story) = dimensionScores (investDimensions story)"
  by (simp add: dimensionScores_def investAnalysis_dimensions)

lemma dimensionScores_investDimensions:
  "dimensionScores (investDimensions story) =
     [if dependencies story = [] then 10 else 5,
      if openQuestions story = [] then 6 else 8,
      if truthyString (soThat story) then 8 else 4,
      if length (acceptanceCriteria story) < 3 then 5 else 8,
      if length (acceptanceCriteria story) \<le> 7 then 8 else 4,
      if acceptanceCriteria story = [] then 2 else 8]"
  by (simp only: dimensionScores_def investDimensions_scores)

lemma overallScore_investAnalysis:
  "overallScore (investAnalysis story) =
     Math_round (of_int (sum_list (dimensionScores (investDimensions story))) / 6)"
proof -
  have len: "length (dimensionScores a) = 6" for a by (simp add: dimensionScores_def)
  have sum: "foldl (+) 0 (dimensionScores a) = sum_list (dimensionScores a)" for a
    by (simp add: dimensionScores_def)
  show ?thesis
    by (simp add: investAnalysis_def Let_def len sum)
qed

lemma suggestions_investAnalysis:
  \<open>suggestions (investAnalysis story) =
     (if dependencies story = [] then [] else [''Consider reducing dependencies on other stories''])
     @ (if truthyString (soThat story) then []
        else [''Clarify the business value with a stronger "so that" clause''])
     @ (if length (acceptanceCriteria story) < 3 then [''Add more specific acceptance criteria''] else [])
     @ (if length (acceptanceCriteria story) \<le> 7 then []
        else [''Consider breaking this story into smaller pieces''])
     @ (if acceptanceCriteria story = [] then [''Add measurable acceptance criteria''] else [])\<close>
proof -
  have \<open>suggestions (investAnalysis story) =
     (if score (independent (investDimensions story)) < 7
      then [''Consider reducing dependencies on other stories''] else [])
     @ (if score (valuable (investDimensions story)) < 7
        then [''Clarify the business value with a stronger "so that" clause''] else [])
     @ (if score (estimable (investDimensions story)) < 7
        then [''Add more specific acceptance criteria''] else [])
     @ (if score (small (investDimensions story)) < 7
        then [''Consider breaking this story into smaller pieces''] else [])
     @ (if score (testable (investDimensions story)) < 7
        then [''Add measurable acceptance criteria''] else [])\<close>
    by (simp add: investAnalysis_def Let_def investDimensions_scores(7) del: append_Nil append_Nil2 append.simps)
  then show ?thesis
    by (simp only: investDimensions_scores) (simp split: if_splits)
qed

lemma Math_round_sixth: "Math_round (of_int s / 6) = (s + 3) div 6"
proof -
  have "(of_int s / 6 + 1 / 2 :: real) = of_int (s + 3) / of_int 6" by simp
  then have "Math_round (of_int s / 6) = \<lfloor>(of_int (s + 3) / of_int 6 :: real)\<rfloor>"
    by (simp only: Math_round_def)
  also have "\<dots> = (s + 3) div 6" by (rule floor_divide_of_int_eq)
  finally show ?thesis .
qed

text \<open>
  C8. The result of \<^verbatim>\<open>analyze_story_quality\<close> is a function of the story that the store
  returns (and of the story id of the input, which it repeats): the six scores are
  10 or 5 (no dependencies or some), 8 or 6 (some open question or none), 8 or 4
  (\<^verbatim>\<open>soThat\<close> set or not), 8 or 5 (at least three acceptance criteria or fewer), 8 or 4 (at
  most seven acceptance criteria or more), 8 or 2 (some acceptance criterion or none); the
  overall score is the mean of the six, rounded to the nearest integer; and a story with
  no dependencies, \<^verbatim>\<open>soThat\<close> set, four acceptance criteria and one open question scores
  10, 8, 8, 8, 8, 8 and 8 overall.
\<close>

theorem invest_scoring:
  assumes "storage_getStory env (getProp input ''featureId'') (getProp input ''storyId'') w =
             (Inr (Some story), w')"
  shows "analyzeStoryQuality env input w =
           (Inr \<lparr>success = True,
                 data = Some (JObj [(''storyId'', getProp input ''storyId''),
                                    (''analysis'', analysisObject (investAnalysis story))]),
                 error = None, requiresUserInput = None, userInput = None\<rparr>, w') \<and>
         dimensionScores (investAnalysis story) =
           [if dependencies story = [] then 10 else 5,
            if openQuestions story = [] then 6 else 8,
            if truthyString (soThat story) then 8 else 4,
            if length (acceptanceCriteria story) < 3 then 5 else 8,
            if length (acceptanceCriteria story) \<le> 7 then 8 else 4,
            if acceptanceCriteria story = [] then 2 else 8] \<and>
         overallScore (investAnalysis story) =
           round (real_of_int (sum_list (dimensionScores (investAnalysis story))) / 6) \<and>
         (dependencies story = [] \<and> truthyString (soThat story) \<and>
          length (acceptanceCriteria story) = 4 \<and> length (openQuestions story) = 1 \<longrightarrow>
            dimensionScores (investAnalysis story) = [10, 8, 8, 8, 8, 8] \<and>
            overallScore (investAnalysis story) = 8)"
proof -
  have handler: "analyzeStoryQuality env input w =
           (Inr \<lparr>success = True,
                 data = Some (JObj [(''storyId'', getProp input ''storyId''),
                                    (''analysis'', analysisObject (investAnalysis story))]),
                 error = None, requiresUserInput = None, userInput = None\<rparr>, w')"
    using assms
    by (simp add: analyzeStoryQuality_def analyzeStoryQuality_try_def catch_io_def bind_io_def
        return_io_def Let_def ok_def)
  have scores: "dimensionScores (investAnalysis story) =
           [if dependencies story = [] then 10 else 5,
            if openQuestions story = [] then 6 else 8,
            if truthyString (soThat story) then 8 else 4,
            if length (acceptanceCriteria story) < 3 then 5 else 8,
            if length (acceptanceCriteria story) \<le> 7 then 8 else 4,
            if acceptanceCriteria story = [] then 2 else 8]"
    by (simp only: dimensionScores_investAnalysis dimensionScores_investDimensions)
  have overall: "overallScore (investAnalysis story) =
           round (real_of_int (sum_list (dimensionScores (investAnalysis story))) / 6)"
    by (simp only: overallScore_investAnalysis dimensionScores_investAnalysis Math_round_def
        round_def)
  have example: "dimensionScores (investAnalysis story) = [10, 8, 8, 8, 8, 8] \<and>
            overallScore (investAnalysis story) = 8"
    if "dependencies story = []" "truthyString (soThat story)"
      "length (acceptanceCriteria story) = 4" "length (openQuestions story) = 1"
  proof -
    from that have s: "dimensionScores (investDimensions story) = [10, 8, 8, 8, 8, 8]"
      by (auto simp: dimensionScores_investDimensions)
    have "overallScore (investAnalysis story) = Math_round (of_int (sum_list [10, 8, 8, 8, 8, 8]) / 6)"
      by (simp only: overallScore_investAnalysis s)
    also have "\<dots> = (sum_list [10, 8, 8, 8, 8, 8] + 3) div 6" by (rule Math_round_sixth)
    also have "\<dots> = 8" by simp
    finally show ?thesis using s by (simp add: dimensionScores_investAnalysis)
  qed
  from handler scores overall example show ?thesis by blast
qed

theorem invest_scoring_witness:
  "storage_getStory (scriptedEnv [])
       (getProp [(''storyId'', JStr ''S-1''), (''featureId'', JStr ''auth'')] ''featureId'')
       (getProp [(''storyId'', JStr ''S-1''), (''featureId'', JStr ''auth'')] ''storyId'') 0 =
     (Inr (Some loginStory), 0) \<and>
   dependencies loginStory = [] \<and> truthyString (soThat loginStory) \<and>
   length (acceptanceCriteria loginStory) = 4 \<and> length (openQuestions loginStory) = 1 \<and>
   dimensionScores (investAnalysis loginStory) = [10, 8, 8, 8, 8, 8] \<and>
   overallScore (investAnalysis loginStory) = 8 \<and>
   analyzeStoryQuality (scriptedEnv []) [(''storyId'', JStr ''S-1''), (''featureId'', JStr ''auth'')] 0 =
     (Inr \<lparr>success = True,
           data = Some (JObj [(''storyId'', JStr ''S-1''),
                              (''analysis'', analysisObject (investAnalysis loginStory))]),
           error = None, requiresUserInput = None, userInput = None\<rparr>, 0)"
proof -
  have h: "storage_getStory (scriptedEnv [])
       (getProp [(''storyId'', JStr ''S-1''), (''featureId'', JStr ''auth'')] ''featureId'')
       (getProp [(''storyId'', JStr ''S-1''), (''featureId'', JStr ''auth'')] ''storyId'') 0 =
     (Inr (Some loginStory), 0)"
    by (simp add: storage_getStory_def getProp_def eval_fs eval_io)
  have p: "dependencies loginStory = [] \<and> truthyString (soThat loginStory) \<and>
   length (acceptanceCriteria loginStory) = 4 \<and> length (openQuestions loginStory) = 1"
    by (simp add: loginStory_def truthyString_def)
  have g: "getProp [(''storyId'', JStr ''S-1''), (''featureId'', JStr ''auth'')] ''storyId'' = JStr ''S-1''"
    by (simp add: getProp_def)
  note r = invest_scoring [OF h]
  from r have handler:
    "analyzeStoryQuality (scriptedEnv []) [(''storyId'', JStr ''S-1''), (''featureId'', JStr ''auth'')] 0 =
     (Inr \<lparr>success = True,
           data = Some (JObj [(''storyId'', JStr ''S-1''),
                              (''analysis'', analysisObject (investAnalysis loginStory))]),
           error = None, requiresUserInput = None, userInput = None\<rparr>, 0)"
    unfolding g by (rule conjunct1)
  from r p have ex: "dimensionScores (investAnalysis loginStory) = [10, 8, 8, 8, 8, 8] \<and>
      overallScore (investAnalysis loginStory) = 8"
    by blast
  from h p ex handler show ?thesis by (elim conjE) (intro conjI; assumption)
qed

text \<open>
  C5 fails on the code: there is no suggestion for the dimension Negotiable. A story
  without open questions scores 6 there, below 7, and when its other dimensions score 7
  or more the list of suggestions is empty.
\<close>

theorem negotiable_without_suggestion:
  "execute (scriptedEnv []) ''analyze_story_quality''
       [(''storyId'', JStr ''S-2''), (''featureId'', JStr ''backlog'')] 0 =
     (Inr (ok (JObj [(''storyId'', JStr ''S-2''),
                     (''analysis'', analysisObject (investAnalysis exportStory))])), 0) \<and>
   score (negotiable (investAnalysis exportStory)) = 6 \<and>
   suggestions (investAnalysis exportStory) = []"
proof -
  have "execute (scriptedEnv []) ''analyze_story_quality''
       [(''storyId'', JStr ''S-2''), (''featureId'', JStr ''backlog'')] 0 =
     (Inr (ok (JObj [(''storyId'', JStr ''S-2''),
                     (''analysis'', analysisObject (investAnalysis exportStory))])), 0)"
    by (simp add: execute_def analyzeStoryQuality_def analyzeStoryQuality_try_def
        storage_getStory_def getProp_def eval_fs eval_io Let_def)
  moreover have "score (negotiable (investAnalysis exportStory)) = 6"
    by (simp add: investAnalysis_dimensions investDimensions_scores exportStory_def)
  moreover have "suggestions (investAnalysis exportStory) = []"
    by (simp add: suggestions_investAnalysis exportStory_def truthyString_def)
  ultimately show ?thesis by (intro conjI)
qed

section \<open>Search\<close>
















end
